theory Spec2Isabelle
  imports Main "HOL-Library.Word"
begin

text \<open>
  The asset ingestion workflow of the cursed-cms server: the derivation of the storage
  path, \<^verbatim>\<open>AssetController.ingestAsset\<close> and \<^verbatim>\<open>AssetController.upsertMetadata\<close> with the MinIO,
  Redis and Prisma calls they make, and the two route handlers in front of them. The
  object store, the two tables, the published messages and the log are an explicit
  state; what the outside answers to each call is a parameter.
\<close>

section \<open>JavaScript string primitives used by the asset controller\<close>

text \<open>
  A JavaScript string is modelled by the list of its code units; the model covers code
  units below 256 (Latin-1), which is what \<^typ>\<open>char\<close> holds. The functions of this
  section are the library calls of \<^verbatim>\<open>asset.controller.ts\<close>:
  \<^verbatim>\<open>replace(/\s+/g, '_')\<close>, \<^verbatim>\<open>toLowerCase()\<close>, \<^verbatim>\<open>replace(/[^0-9]/g, '')\<close>,
  \<^verbatim>\<open>replace('.', '')\<close>, \<^verbatim>\<open>join('/')\<close>, and \<^verbatim>\<open>path.extname\<close>, \<^verbatim>\<open>path.basename\<close>
  of the POSIX \<^verbatim>\<open>path\<close> module.
\<close>

definition code_unit :: "char \<Rightarrow> nat" where
  "code_unit c = of_char c"

text \<open>The class \<^verbatim>\<open>\s\<close> below 256: TAB, LF, VT, FF, CR, SPACE and NO-BREAK SPACE.\<close>

definition is_space :: "char \<Rightarrow> bool" where
  "is_space c = (let n = code_unit c in (9 \<le> n \<and> n \<le> 13) \<or> n = 32 \<or> n = 160)"

definition is_digit :: "char \<Rightarrow> bool" where
  "is_digit c = (let n = code_unit c in 48 \<le> n \<and> n \<le> 57)"

text \<open>Upper-case letters below 256: A-Z, and U+00C0 to U+00DE except the
  multiplication sign U+00D7; each lower-case partner is 32 above.\<close>

definition is_upper :: "char \<Rightarrow> bool" where
  "is_upper c = (let n = code_unit c in
     (65 \<le> n \<and> n \<le> 90) \<or> (192 \<le> n \<and> n \<le> 222 \<and> n \<noteq> 215))"

definition lower_char :: "char \<Rightarrow> char" where
  "lower_char c = (if is_upper c then char_of (code_unit c + 32) else c)"

definition toLowerCase :: "string \<Rightarrow> string" where
  "toLowerCase s = map lower_char s"

text \<open>\<^verbatim>\<open>s.replace(/\s+/g, '_')\<close>: every maximal run of white space becomes one
  underscore. The flag says that the previous character was white space, so that the
  run has its underscore already.\<close>

fun replace_ws_from :: "bool \<Rightarrow> string \<Rightarrow> string" where
  "replace_ws_from in_run [] = []"
| "replace_ws_from in_run (c # cs) =
     (if is_space c
      then (if in_run then replace_ws_from True cs else CHR ''_'' # replace_ws_from True cs)
      else c # replace_ws_from False cs)"

definition replace_ws :: "string \<Rightarrow> string" where
  "replace_ws s = replace_ws_from False s"

text \<open>\<^verbatim>\<open>s.replace(/[^0-9]/g, '')\<close>: only the ASCII digits stay.\<close>

definition digits_only :: "string \<Rightarrow> string" where
  "digits_only s = filter is_digit s"

text \<open>\<^verbatim>\<open>s.replace('.', '')\<close> with a string pattern: the first dot goes, the rest stays.\<close>

fun remove_first_dot :: "string \<Rightarrow> string" where
  "remove_first_dot [] = []"
| "remove_first_dot (c # cs) = (if c = CHR ''.'' then cs else c # remove_first_dot cs)"

text \<open>\<^verbatim>\<open>parts.join(sep)\<close>.\<close>

fun join :: "string \<Rightarrow> string list \<Rightarrow> string" where
  "join sep [] = []"
| "join sep [p] = p"
| "join sep (p # q # ps) = p @ sep @ join sep (q # ps)"

text \<open>The last component of a POSIX path: trailing slashes are dropped, then everything
  up to the last remaining slash. This is \<^verbatim>\<open>path.basename(p)\<close>.\<close>

definition basename :: "string \<Rightarrow> string" where
  "basename p =
     rev (takeWhile (\<lambda>c. c \<noteq> CHR ''/'') (dropWhile (\<lambda>c. c = CHR ''/'') (rev p)))"

text \<open>The characters after the last dot of a string (the whole string if it has none).\<close>

definition after_last_dot :: "string \<Rightarrow> string" where
  "after_last_dot b = rev (takeWhile (\<lambda>c. c \<noteq> CHR ''.'') (rev b))"

text \<open>\<^verbatim>\<open>path.extname(p)\<close>: from the last dot of the last component to its end; empty
  when that component has no dot, when its only dot is its first character, and when it
  is \<^verbatim>\<open>..\<close>.\<close>

definition extname :: "string \<Rightarrow> string" where
  "extname p =
     (let b = basename p; e = after_last_dot b in
      if CHR ''.'' \<notin> set b then []
      else if b = ''..'' then []
      else if length e + 1 = length b then []
      else CHR ''.'' # e)"

section \<open>Storage path derivation\<close>

record metadata =
  asset_type :: string
  asset_class :: string
  asset_location_name :: string
  asset_camera :: string
  asset_date_label :: string

text \<open>\<^verbatim>\<open>x || 'undated'\<close> on a string: the empty string is falsy.\<close>

definition or_undated :: "string \<Rightarrow> string" where
  "or_undated datePart = (if datePart = [] then ''undated'' else datePart)"

text \<open>Lines 67 to 87 of \<^verbatim>\<open>ingestAsset\<close>: the path computed in the \<^verbatim>\<open>try\<close> block, from
  the identity, the extension computed on line 64 and the optional metadata.\<close>

definition storedPath_try :: "string \<Rightarrow> string \<Rightarrow> metadata option \<Rightarrow> string" where
  "storedPath_try assetUuid fileExtension metaData =
     (case metaData of
        Some m \<Rightarrow>
          (let datePart = digits_only (asset_date_label m);
               metaPath = join ''/''
                 [asset_type m,
                  asset_class m,
                  toLowerCase (replace_ws (asset_location_name m)),
                  toLowerCase (replace_ws (asset_camera m)),
                  or_undated datePart];
               storedFilename = assetUuid @ fileExtension
           in ''assets/'' @ metaPath @ ''/'' @ storedFilename)
      | None \<Rightarrow>
          (let storedFilename = assetUuid @ fileExtension
           in ''assets/unclassified/'' @ storedFilename))"

text \<open>Lines 162 to 181: the path computed again in the \<^verbatim>\<open>catch\<close> block, from the
  identity, the file name (the extension is taken again with \<^verbatim>\<open>path.extname\<close>) and the
  optional metadata.\<close>

definition storedPath_cleanup :: "string \<Rightarrow> string \<Rightarrow> metadata option \<Rightarrow> string" where
  "storedPath_cleanup assetUuid fileName metaData =
     (case metaData of
        Some m \<Rightarrow>
          (let datePart = digits_only (asset_date_label m);
               metaPath = join ''/''
                 [asset_type m,
                  asset_class m,
                  toLowerCase (replace_ws (asset_location_name m)),
                  toLowerCase (replace_ws (asset_camera m)),
                  or_undated datePart];
               storedFilename = assetUuid @ extname fileName
           in ''assets/'' @ metaPath @ ''/'' @ storedFilename)
      | None \<Rightarrow>
          (let storedFilename = assetUuid @ extname fileName
           in ''assets/unclassified/'' @ storedFilename))"

section \<open>Values, errors and the world outside the controller\<close>

type_synonym byte = "8 word"

text \<open>What a library call (MinIO, Redis, Prisma) can throw: an \<^verbatim>\<open>Error\<close> object (its
  message) or a value that is no \<^verbatim>\<open>Error\<close> (its \<^verbatim>\<open>String(...)\<close>). The class \<^verbatim>\<open>ServerError\<close> of
  \<^verbatim>\<open>asset.controller.ts\<close> is not exported, so no library call throws an instance of it.\<close>

datatype foreign = JsError string | NonError string

text \<open>What a \<^verbatim>\<open>catch\<close> of the controller can receive: an instance of its own class
  \<^verbatim>\<open>ServerError\<close> (message and \<^verbatim>\<open>statusCode\<close>), or what a library call threw.\<close>

datatype exn = ServerError string nat | Foreign foreign

text \<open>\<^verbatim>\<open>error instanceof Error ? error.message : String(error)\<close>\<close>

fun error_message :: "exn \<Rightarrow> string" where
  "error_message (ServerError m s) = m"
| "error_message (Foreign (JsError m)) = m"
| "error_message (Foreign (NonError v)) = v"

record File =
  file_name :: string
  file_size :: nat
  file_type :: string
  file_content :: "byte list"

text \<open>The object \<^verbatim>\<open>assetData\<close> of lines 105 to 115, the row of table \<^verbatim>\<open>assets\<close> (the column
  \<^verbatim>\<open>uploaded_at\<close> is filled by the database), the row of table \<^verbatim>\<open>asset_meta_base\<close>, and the
  asset as Prisma returns it with \<^verbatim>\<open>include: { meta_base: true }\<close>.\<close>

record asset_data =
  uuid :: string
  imported_fullpath :: string
  imported_filename :: string
  stored_fullpath :: string
  stored_url :: string
  asset_size :: nat
  stored_filename :: string
  extension :: string
  hash :: "string option"

record asset_row = asset_data +
  uploaded_at :: nat

record asset_meta_base = metadata +
  meta_id :: string
  asset_id :: string

record asset = asset_row +
  meta_base :: "asset_meta_base option"

record stored_object =
  object_data :: "byte list"
  object_size :: nat
  object_content_type :: string

text \<open>The payload of the \<^verbatim>\<open>asset_ingested\<close> event, lines 139 to 148.\<close>

record asset_event =
  event_uuid :: string
  event_filename :: string
  event_url :: string
  event_extension :: string
  event_size :: nat
  event_meta :: "asset_meta_base option"

text \<open>The five metadata fields of a request body, each there (a string) or not.\<close>

record meta_body =
  body_asset_type :: "string option"
  body_asset_class :: "string option"
  body_asset_location_name :: "string option"
  body_asset_camera :: "string option"
  body_asset_date_label :: "string option"

text \<open>What \<^verbatim>\<open>formatValidationError\<close> of \<^verbatim>\<open>base.ts\<close> reads and builds: the schema of an object
  (the type of each property by its name, and the names required), the validation error
  of Elysia (the part of the request that failed, the value received, the schema of the
  validator), and an entry of \<^verbatim>\<open>invalidFields\<close>.\<close>

record schema =
  schema_type :: string
  properties :: "(string \<times> string) list"
  required :: "string list"

record validation_error =
  error_type :: string
  error_value :: meta_body
  error_schema :: schema

record invalid_field =
  field :: string
  expected :: string
  received :: string

datatype level = Info | Error | Warn | Debug

text \<open>What is logged beside the message: nothing, an object of named values, a caught
  error, one value, or the validation error.\<close>

datatype jv =
    Str string
  | Num nat
  | Meta metadata
  | Names "string list"
  | Undefined
  | Invalid "invalid_field list"
  | Body meta_body
  | Schema schema
  | Stringified meta_body
  | Nested "(string \<times> jv) list"

datatype detail =
    NoDetail
  | Fields "(string \<times> jv) list"
  | Caught exn
  | Arg jv
  | Rejected validation_error

type_synonym log_entry = "level \<times> string \<times> detail"

text \<open>The calls that leave the process, in the order they are issued.\<close>

datatype call =
    PutObject string "byte list" nat string
  | PresignedGetObject string nat
  | RemoveObject string
  | RedisPublish string
  | AssetCreate string
  | AssetFindUnique string
  | MetaUpsert string

text \<open>The world: the bucket, the two tables (\<^verbatim>\<open>asset_meta_base\<close> keyed by its unique
  column \<^verbatim>\<open>asset_id\<close>), the messages published, the log, and the trace of calls.\<close>

record world =
  objects :: "string \<rightharpoonup> stored_object"
  assets :: "string \<rightharpoonup> asset_row"
  asset_meta :: "string \<rightharpoonup> asset_meta_base"
  published :: "(string \<times> asset_event) list"
  logs :: "log_entry list"
  calls :: "call list"

text \<open>What the outside answers during one call of the controller: the identity that
  \<^verbatim>\<open>crypto.randomUUID()\<close> draws, for each remote call whether it throws (the lookup of
  \<^verbatim>\<open>upsertMetadata\<close> before the write and the one after it apart), the URL MinIO signs, the
  time stamp and the metadata row id the database fills in, and the MD5 function of the
  runtime's \<^verbatim>\<open>crypto\<close> module (digest as bytes). Both client singletons are taken as
  initialised.\<close>

record env =
  randomUUID :: string
  putObject_throws :: "foreign option"
  presignedGetObject_result :: "foreign + string"
  create_throws :: "foreign option"
  create_time :: nat
  new_meta_id :: string
  findUnique_throws :: "foreign option"
  upsert_throws :: "foreign option"
  findUnique_again_throws :: "foreign option"
  publish_throws :: "foreign option"
  removeObject_throws :: "foreign option"
  md5 :: "byte list \<Rightarrow> byte list"

type_synonym 'a io = "world \<Rightarrow> (exn + 'a) \<times> world"

definition logger :: "level \<Rightarrow> string \<Rightarrow> detail \<Rightarrow> world \<Rightarrow> world" where
  "logger lvl msg d w = w\<lparr>logs := logs w @ [(lvl, msg, d)]\<rparr>"

definition issue :: "call \<Rightarrow> world \<Rightarrow> world" where
  "issue c w = w\<lparr>calls := calls w @ [c]\<rparr>"

text \<open>Sequencing of awaited calls inside a \<^verbatim>\<open>try\<close> block: the first throw ends it.\<close>

definition and_then :: "'a io \<Rightarrow> ('a \<Rightarrow> 'b io) \<Rightarrow> 'b io" where
  "and_then m f w = (case m w of (Inl e, w') \<Rightarrow> (Inl e, w') | (Inr x, w') \<Rightarrow> f x w')"

section \<open>The MinIO and Redis clients\<close>

text \<open>\<^verbatim>\<open>MinioClient.uploadObject\<close>: \<^verbatim>\<open>putObject\<close>, logged; an error is logged and thrown
  again.\<close>

definition uploadObject :: "env \<Rightarrow> string \<Rightarrow> byte list \<Rightarrow> nat \<Rightarrow> string \<Rightarrow> unit io" where
  "uploadObject ev objectName dat sz contentType w =
     (let w1 = issue (PutObject objectName dat sz contentType) w in
      case putObject_throws ev of
        None \<Rightarrow>
          (Inr (), logger Info (''Uploaded object: '' @ objectName) NoDetail
             (w1\<lparr>objects := (objects w1)(objectName \<mapsto>
                \<lparr>object_data = dat, object_size = sz, object_content_type = contentType\<rparr>)\<rparr>))
      | Some error \<Rightarrow>
          (Inl (Foreign error),
           logger Error (''Error uploading object: '' @ objectName) (Caught (Foreign error)) w1))"

text \<open>\<^verbatim>\<open>MinioClient.deleteObject\<close>: \<^verbatim>\<open>removeObject\<close>, logged; an error is logged and thrown
  again.\<close>

definition deleteObject :: "env \<Rightarrow> string \<Rightarrow> unit io" where
  "deleteObject ev objectName w =
     (let w1 = issue (RemoveObject objectName) w in
      case removeObject_throws ev of
        None \<Rightarrow>
          (Inr (), logger Info (''Deleted object: '' @ objectName) NoDetail
             (w1\<lparr>objects := (objects w1)(objectName := None)\<rparr>))
      | Some error \<Rightarrow>
          (Inl (Foreign error),
           logger Error (''Error deleting object: '' @ objectName) (Caught (Foreign error)) w1))"

text \<open>\<^verbatim>\<open>MinioClient.getPresignedUrl\<close> with the default expiry of 86400 seconds.\<close>

definition getPresignedUrl :: "env \<Rightarrow> string \<Rightarrow> string io" where
  "getPresignedUrl ev objectName w =
     (let w1 = issue (PresignedGetObject objectName 86400) w in
      case presignedGetObject_result ev of
        Inr url \<Rightarrow> (Inr url, w1)
      | Inl error \<Rightarrow>
          (Inl (Foreign error),
           logger Error (''Error generating presigned URL for: '' @ objectName)
             (Caught (Foreign error)) w1))"

text \<open>\<^verbatim>\<open>RedisClient.publish\<close>: the message is published and the fact logged at debug level;
  an error is logged and thrown again.\<close>

definition publish :: "env \<Rightarrow> string \<Rightarrow> asset_event \<Rightarrow> unit io" where
  "publish ev channel message w =
     (let w1 = issue (RedisPublish channel) w in
      case publish_throws ev of
        None \<Rightarrow>
          (Inr (), logger Debug (''Published message to channel: '' @ channel) NoDetail
             (w1\<lparr>published := published w1 @ [(channel, message)]\<rparr>))
      | Some error \<Rightarrow>
          (Inl (Foreign error),
           logger Error (''Error publishing message to channel: '' @ channel)
             (Caught (Foreign error)) w1))"

section \<open>The database, as the Prisma client shows it\<close>

definition with_meta :: "asset_row \<Rightarrow> asset_meta_base option \<Rightarrow> asset" where
  "with_meta r m =
     \<lparr>uuid = uuid r, imported_fullpath = imported_fullpath r,
      imported_filename = imported_filename r, stored_fullpath = stored_fullpath r,
      stored_url = stored_url r, asset_size = asset_size r,
      stored_filename = stored_filename r, extension = extension r, hash = hash r,
      uploaded_at = uploaded_at r, meta_base = m\<rparr>"

definition new_row :: "asset_data \<Rightarrow> nat \<Rightarrow> asset_row" where
  "new_row d t =
     \<lparr>uuid = uuid d, imported_fullpath = imported_fullpath d,
      imported_filename = imported_filename d, stored_fullpath = stored_fullpath d,
      stored_url = stored_url d, asset_size = asset_size d,
      stored_filename = stored_filename d, extension = extension d, hash = hash d,
      uploaded_at = t\<rparr>"

definition new_meta :: "metadata \<Rightarrow> string \<Rightarrow> string \<Rightarrow> asset_meta_base" where
  "new_meta m i a =
     \<lparr>asset_type = asset_type m, asset_class = asset_class m,
      asset_location_name = asset_location_name m, asset_camera = asset_camera m,
      asset_date_label = asset_date_label m, meta_id = i, asset_id = a\<rparr>"

text \<open>\<^verbatim>\<open>prisma.asset.create({ data, include: { meta_base: true } })\<close>, the metadata row
  created in the same write when \<^verbatim>\<open>data.meta_base.create\<close> is there. The write is atomic: it
  throws and changes nothing, or both rows are there. It throws when the outside says so,
  and the primary key refuses a second row with the same \<^verbatim>\<open>uuid\<close>.\<close>

definition create_failure :: "env \<Rightarrow> (string \<rightharpoonup> asset_row) \<Rightarrow> string \<Rightarrow> foreign option" where
  "create_failure ev table u =
     (case create_throws ev of
        Some error \<Rightarrow> Some error
      | None \<Rightarrow>
          if table u \<noteq> None
          then Some (JsError ''Unique constraint failed on the fields: (uuid)'')
          else None)"

definition asset_create :: "env \<Rightarrow> asset_data \<Rightarrow> metadata option \<Rightarrow> asset io" where
  "asset_create ev d nested w =
     (let w1 = issue (AssetCreate (uuid d)) w in
      case create_failure ev (assets w1) (uuid d) of
        Some error \<Rightarrow> (Inl (Foreign error), w1)
      | None \<Rightarrow>
          (let row = new_row d (create_time ev);
               meta = map_option (\<lambda>m. new_meta m (new_meta_id ev) (uuid d)) nested
           in (Inr (with_meta row meta),
               w1\<lparr>assets := (assets w1)(uuid d \<mapsto> row),
                  asset_meta := (case meta of
                                   None \<Rightarrow> asset_meta w1
                                 | Some r \<Rightarrow> (asset_meta w1)(uuid d \<mapsto> r))\<rparr>)))"

text \<open>\<^verbatim>\<open>prisma.asset.findUnique({ where: { uuid }, include: { meta_base: true } })\<close>: it
  throws when the outside says so, and reads the two tables otherwise.\<close>

definition asset_findUnique :: "foreign option \<Rightarrow> string \<Rightarrow> asset option io" where
  "asset_findUnique throws u w =
     (let w1 = issue (AssetFindUnique u) w in
      case throws of
        Some error \<Rightarrow> (Inl (Foreign error), w1)
      | None \<Rightarrow> (Inr (map_option (\<lambda>r. with_meta r (asset_meta w1 u)) (assets w1 u)), w1))"

text \<open>\<^verbatim>\<open>prisma.assetMetaBase.upsert({ where: { asset_id }, update, create })\<close>: the row of
  this asset has its five fields overwritten when it exists, and is created and connected
  to the asset otherwise (the foreign key refuses an asset that is not there).\<close>

definition meta_upsert :: "env \<Rightarrow> string \<Rightarrow> metadata \<Rightarrow> asset_meta_base io" where
  "meta_upsert ev u m w =
     (let w1 = issue (MetaUpsert u) w in
      case upsert_throws ev of
        Some error \<Rightarrow> (Inl (Foreign error), w1)
      | None \<Rightarrow>
          (case asset_meta w1 u of
             Some r \<Rightarrow>
               (let r' = r\<lparr>asset_type := asset_type m, asset_class := asset_class m,
                           asset_location_name := asset_location_name m,
                           asset_camera := asset_camera m,
                           asset_date_label := asset_date_label m\<rparr>
                in (Inr r', w1\<lparr>asset_meta := (asset_meta w1)(u \<mapsto> r')\<rparr>))
           | None \<Rightarrow>
               if assets w1 u = None
               then (Inl (Foreign (JsError ''No Asset record was found for a nested connect'')), w1)
               else
                 (let r' = new_meta m (new_meta_id ev) u
                  in (Inr r', w1\<lparr>asset_meta := (asset_meta w1)(u \<mapsto> r')\<rparr>))))"

section \<open>The asset controller\<close>

definition log_io :: "level \<Rightarrow> string \<Rightarrow> detail \<Rightarrow> unit io" where
  "log_io lvl msg d w = (Inr (), logger lvl msg d w)"

definition throw :: "exn \<Rightarrow> 'a io" where
  "throw e w = (Inl e, w)"

definition return :: "'a \<Rightarrow> 'a io" where
  "return x w = (Inr x, w)"

text \<open>\<^verbatim>\<open>digest('hex')\<close>: two lower-case hexadecimal digits for each byte.\<close>

definition hex_digit :: "nat \<Rightarrow> char" where
  "hex_digit n = (if n < 10 then char_of (48 + n) else char_of (87 + n))"

definition hex_of_byte :: "byte \<Rightarrow> string" where
  "hex_of_byte b = [hex_digit (unat b div 16), hex_digit (unat b mod 16)]"

definition digest_hex :: "byte list \<Rightarrow> string" where
  "digest_hex bs = concat (map hex_of_byte bs)"

text \<open>The \<^verbatim>\<open>try\<close> block of \<^verbatim>\<open>ingestAsset\<close>, lines 60 to 152. Reading the bytes of the file
  (\<^verbatim>\<open>file.arrayBuffer()\<close>) is taken to succeed.\<close>

definition ingest_try :: "env \<Rightarrow> File \<Rightarrow> metadata option \<Rightarrow> asset io" where
  "ingest_try ev file metaData =
     (let assetUuid = randomUUID ev;
          fileContent = file_content file;
          fileExtension = extname (file_name file);
          originalFilename = file_name file;
          storedPath = storedPath_try assetUuid fileExtension metaData
      in
      and_then (log_io Info (''Uploading file to MinIO: '' @ storedPath) NoDetail) (\<lambda>_.
      and_then (uploadObject ev storedPath fileContent (file_size file) (file_type file)) (\<lambda>_.
      and_then (getPresignedUrl ev storedPath) (\<lambda>storedUrl.
      and_then (log_io Info (''Creating asset record in database: '' @ assetUuid) NoDetail) (\<lambda>_.
      and_then (asset_create ev
                 \<lparr>uuid = assetUuid,
                  imported_fullpath = originalFilename,
                  imported_filename = basename originalFilename,
                  stored_fullpath = storedPath,
                  stored_url = storedUrl,
                  asset_size = file_size file,
                  stored_filename = basename storedPath,
                  extension = remove_first_dot fileExtension,
                  hash = Some (digest_hex (md5 ev fileContent))\<rparr>
                 metaData) (\<lambda>asset.
      and_then (log_io Info (''Emitting asset_ingested event for: '' @ assetUuid) NoDetail) (\<lambda>_.
      and_then (publish ev ''asset_ingested''
                 \<lparr>event_uuid = uuid asset,
                  event_filename = imported_filename asset,
                  event_url = stored_url asset,
                  event_extension = extension asset,
                  event_size = asset_size asset,
                  event_meta = meta_base asset\<rparr>) (\<lambda>_.
      and_then (log_io Info (''Asset ingestion completed successfully: '' @ assetUuid) NoDetail) (\<lambda>_.
      return asset)))))))))"

text \<open>The inner \<^verbatim>\<open>try\<close>/\<^verbatim>\<open>catch\<close> of the \<^verbatim>\<open>catch\<close> block, lines 160 to 187: the path is
  derived again, the object deleted, and a failure of the delete is logged and goes no
  further.\<close>

definition cleanup :: "env \<Rightarrow> File \<Rightarrow> metadata option \<Rightarrow> world \<Rightarrow> world" where
  "cleanup ev file metaData w =
     (let storedPath = storedPath_cleanup (randomUUID ev) (file_name file) metaData in
      case and_then (deleteObject ev storedPath) (\<lambda>_.
             log_io Info (''Cleaned up failed upload: '' @ storedPath) NoDetail) w of
        (Inr _, w') \<Rightarrow> w'
      | (Inl cleanupError, w') \<Rightarrow>
          logger Error ''Failed to clean up after failed asset ingestion:''
            (Caught cleanupError) w')"

text \<open>Lines 189 to 193 and 271 to 275: an instance of \<^verbatim>\<open>ServerError\<close> is thrown again,
  anything else is replaced.\<close>

fun rethrow :: "exn \<Rightarrow> string \<Rightarrow> exn" where
  "rethrow (ServerError m s) msg = ServerError m s"
| "rethrow (Foreign x) msg = ServerError msg 500"

definition ingestAsset :: "env \<Rightarrow> File \<Rightarrow> metadata option \<Rightarrow> asset io" where
  "ingestAsset ev file metaData w =
     (let assetUuid = randomUUID ev;
          w0 = logger Info (''Starting asset ingestion: '' @ assetUuid)
                 (Fields [(''filename'', Str (file_name file)),
                          (''size'', Num (file_size file)),
                          (''type'', Str (file_type file))]) w
      in case ingest_try ev file metaData w0 of
           (Inr asset, w1) \<Rightarrow> (Inr asset, w1)
         | (Inl error, w1) \<Rightarrow>
             (let w2 = logger Error ''Asset ingestion failed:''
                         (Fields [(''error'', Str (error_message error)),
                                  (''assetUuid'', Str assetUuid),
                                  (''filename'', Str (file_name file))]) w1;
                  w3 = cleanup ev file metaData w2
              in (Inl (rethrow error ''Failed to ingest asset''), w3)))"

text \<open>The \<^verbatim>\<open>try\<close> block of \<^verbatim>\<open>upsertMetadata\<close>, lines 217 to 264.\<close>

definition upsert_try :: "env \<Rightarrow> string \<Rightarrow> metadata \<Rightarrow> asset option io" where
  "upsert_try ev assetUuid metaData =
     and_then (asset_findUnique (findUnique_throws ev) assetUuid) (\<lambda>existingAsset.
       case existingAsset of
         None \<Rightarrow>
           and_then (log_io Error (''Asset not found: '' @ assetUuid) NoDetail) (\<lambda>_.
           throw (ServerError ''Asset not found'' 404))
       | Some _ \<Rightarrow>
           and_then (meta_upsert ev assetUuid metaData) (\<lambda>metaBase.
           and_then (log_io Info (''Metadata upserted successfully for asset: '' @ assetUuid)
                       NoDetail) (\<lambda>_.
           asset_findUnique (findUnique_again_throws ev) assetUuid)))"

definition upsertMetadata :: "env \<Rightarrow> string \<Rightarrow> metadata \<Rightarrow> asset option io" where
  "upsertMetadata ev assetUuid metaData w =
     (let w0 = logger Info (''Upserting metadata for asset: '' @ assetUuid) NoDetail w
      in case upsert_try ev assetUuid metaData w0 of
           (Inr updatedAsset, w1) \<Rightarrow> (Inr updatedAsset, w1)
         | (Inl error, w1) \<Rightarrow>
             (let w2 = logger Error ''Metadata upsert failed:''
                         (Fields [(''error'', Str (error_message error)),
                                  (''assetUuid'', Str assetUuid)]) w1
              in (Inl (rethrow error ''Failed to upsert metadata''), w2)))"

section \<open>The routes\<close>

text \<open>The body of \<^verbatim>\<open>POST /assets/ingest\<close>: the five metadata fields, which the schema of
  that route makes optional strings, and the file part. A handler takes a body that its
  schema admits.\<close>

record ingest_body = meta_body +
  body_file :: "File option"

record response =
  resp_status :: nat
  resp_success :: bool
  resp_data :: "asset option"
  resp_error :: "string option"

text \<open>Truthiness of an optional string: \<^verbatim>\<open>undefined\<close> and the empty string are falsy.\<close>

definition truthy :: "string option \<Rightarrow> bool" where
  "truthy v = (case v of None \<Rightarrow> False | Some s \<Rightarrow> s \<noteq> [])"

definition str_of :: "string option \<Rightarrow> string" where
  "str_of v = (case v of None \<Rightarrow> [] | Some s \<Rightarrow> s)"

text \<open>The object \<^verbatim>\<open>metadata\<close> built from the fields of a body; it is used only where
  every field is there.\<close>

definition body_metadata :: "'a meta_body_scheme \<Rightarrow> metadata" where
  "body_metadata body =
     \<lparr>asset_type = str_of (body_asset_type body),
      asset_class = str_of (body_asset_class body),
      asset_location_name = str_of (body_asset_location_name body),
      asset_camera = str_of (body_asset_camera body),
      asset_date_label = str_of (body_asset_date_label body)\<rparr>"

text \<open>\<^verbatim>\<open>error instanceof Error && 'statusCode' in error ? error.statusCode : 500\<close>; what
  a library throws is taken to have no such property.\<close>

fun status_code :: "exn \<Rightarrow> nat" where
  "status_code (ServerError m s) = s"
| "status_code (Foreign x) = 500"

text \<open>\<^verbatim>\<open>error instanceof Error ? error.message : fallback\<close>\<close>

fun message_or :: "exn \<Rightarrow> string \<Rightarrow> string" where
  "message_or (ServerError m s) fallback = m"
| "message_or (Foreign (JsError m)) fallback = m"
| "message_or (Foreign (NonError v)) fallback = fallback"

definition hasAllMetadataFields :: "'a meta_body_scheme \<Rightarrow> bool" where
  "hasAllMetadataFields body =
     (truthy (body_asset_type body) \<and> truthy (body_asset_class body) \<and>
      truthy (body_asset_location_name body) \<and> truthy (body_asset_camera body) \<and>
      truthy (body_asset_date_label body))"

text \<open>The handler of \<^verbatim>\<open>POST /assets/ingest\<close>, lines 32 to 105 of \<^verbatim>\<open>asset.routes.ts\<close>.\<close>

definition ingestRoute :: "env \<Rightarrow> ingest_body \<Rightarrow> world \<Rightarrow> response \<times> world" where
  "ingestRoute ev body w =
     (case body_file body of
        None \<Rightarrow>
          (\<lparr>resp_status = 400, resp_success = False, resp_data = None,
            resp_error = Some ''No file provided or invalid file''\<rparr>, w)
      | Some file \<Rightarrow>
          (case (if hasAllMetadataFields body
                 then ingestAsset ev file (Some (body_metadata body))
                        (logger Info ''Ingesting asset with metadata''
                           (Fields [(''filename'', Str (file_name file)),
                                    (''size'', Num (file_size file)),
                                    (''type'', Str (file_type file)),
                                    (''metadata'', Meta (body_metadata body))]) w)
                 else ingestAsset ev file None
                        (logger Info ''Ingesting asset without metadata''
                           (Fields [(''filename'', Str (file_name file)),
                                    (''size'', Num (file_size file)),
                                    (''type'', Str (file_type file))]) w)) of
             (Inr asset, w') \<Rightarrow>
               (\<lparr>resp_status = 200, resp_success = True, resp_data = Some asset,
                 resp_error = None\<rparr>, w')
           | (Inl error, w') \<Rightarrow>
               (\<lparr>resp_status = status_code error, resp_success = False, resp_data = None,
                 resp_error = Some (message_or error ''Failed to ingest asset'')\<rparr>,
                logger Error ''Failed to ingest asset:'' (Caught error) w')))"

text \<open>Lines 141 to 144: the names of the fields of \<^verbatim>\<open>metadata\<close> whose value is falsy (for a
  string: empty), in the order of the object's keys.\<close>

definition missingFields :: "metadata \<Rightarrow> string list" where
  "missingFields metadata =
     map fst (filter (\<lambda>(key, value). value = [])
       [(''asset_type'', asset_type metadata),
        (''asset_class'', asset_class metadata),
        (''asset_location_name'', asset_location_name metadata),
        (''asset_camera'', asset_camera metadata),
        (''asset_date_label'', asset_date_label metadata)])"

text \<open>The handler of \<^verbatim>\<open>POST /assets/:uuid/metadata\<close>, lines 121 to 177. The schema of the
  route (lines 182 to 188) admits a body with five strings, which is the object
  \<^verbatim>\<open>metadata\<close> the handler builds from it.\<close>

definition upsertRoute :: "env \<Rightarrow> string \<Rightarrow> metadata \<Rightarrow> world \<Rightarrow> response \<times> world" where
  "upsertRoute ev assetUuid metadata w =
     (if length (missingFields metadata) > 0
      then (\<lparr>resp_status = 400, resp_success = False, resp_data = None,
             resp_error = Some (''Missing required metadata fields: ''
                                @ join '', '' (missingFields metadata))\<rparr>, w)
      else
        (case upsertMetadata ev assetUuid metadata
                (logger Info ''Upserting metadata for asset''
                   (Fields [(''uuid'', Str assetUuid),
                            (''metadata'', Meta metadata)]) w) of
           (Inr asset, w') \<Rightarrow>
             (\<lparr>resp_status = 200, resp_success = True, resp_data = asset,
               resp_error = None\<rparr>, w')
         | (Inl error, w') \<Rightarrow>
             (\<lparr>resp_status = status_code error, resp_success = False, resp_data = None,
               resp_error = Some (message_or error ''Failed to upsert metadata'')\<rparr>,
              logger Error ''Failed to upsert metadata:'' (Caught error) w')))"

section \<open>The base route: the schema of the body and the error handler\<close>

text \<open>
  The route \<^verbatim>\<open>POST /assets/:uuid/metadata\<close> is registered on \<^verbatim>\<open>createBaseRoute('/assets')\<close>
  with a schema for its body. Elysia checks the body against the schema before the
  handler runs; a body that fails the check never reaches the handler, and the error
  handler of \<^verbatim>\<open>base.ts\<close> (lines 109 to 154) answers with code \<^verbatim>\<open>VALIDATION\<close>. A request body
  is taken here as an object whose fields among the five are strings, each there or not.
  The hooks \<^verbatim>\<open>onRequest\<close>, which only write a log line for every request, are left out.
\<close>












text \<open>\<^verbatim>\<open>RestResult\<close> and \<^verbatim>\<open>makeErrorResult\<close> of \<^verbatim>\<open>types/server.d\<close>; the content given is an
  object, so \<^verbatim>\<open>content || null\<close> is the content.\<close>

record 'a rest_result =
  http_status :: nat
  success :: bool
  message :: string
  content :: "'a option"






section \<open>Example inputs\<close>

text \<open>A file \<^verbatim>\<open>photo.jpg\<close> of 1024 bytes, the same with an upper-case suffix, the metadata
  of the Lake House scenario, an empty world, and an outside where every call goes
  through (its digest function is a stand-in with a fixed answer).\<close>

definition kilobyte :: "byte list" where
  "kilobyte = replicate 1024 0"

definition photo_jpg :: File where
  "photo_jpg =
     \<lparr>file_name = ''photo.jpg'', file_size = 1024, file_type = ''image/jpeg'',
      file_content = kilobyte\<rparr>"

definition photo_upper :: File where
  "photo_upper =
     \<lparr>file_name = ''photo.JPG'', file_size = 1024, file_type = ''image/jpeg'',
      file_content = kilobyte\<rparr>"

definition lake_house :: metadata where
  "lake_house =
     \<lparr>asset_type = ''img'', asset_class = ''family'', asset_location_name = ''Lake House'',
      asset_camera = ''Canon R5'', asset_date_label = ''2024-07-01''\<rparr>"

definition empty_world :: world where
  "empty_world =
     \<lparr>objects = Map.empty, assets = Map.empty, asset_meta = Map.empty, published = [],
      logs = [], calls = []\<rparr>"

definition quiet_env :: env where
  "quiet_env =
     \<lparr>randomUUID = ''0f8fad5b'', putObject_throws = None,
      presignedGetObject_result = Inr ''http://minio/signed'', create_throws = None,
      create_time = 0, new_meta_id = ''meta-1'', findUnique_throws = None,
      upsert_throws = None, findUnique_again_throws = None,
      publish_throws = None, removeObject_throws = None,
      md5 = (\<lambda>bs. [0xD4, 0x1D])\<rparr>"

text \<open>A request to \<^verbatim>\<open>POST /assets/ingest\<close> with a file and three of the five fields (the
  location is empty, the camera is not there), and a world whose table \<^verbatim>\<open>assets\<close> holds one
  row and no metadata.\<close>

definition partial_body :: ingest_body where
  "partial_body =
     \<lparr>body_asset_type = Some ''img'', body_asset_class = Some ''family'',
      body_asset_location_name = Some [], body_asset_camera = None,
      body_asset_date_label = Some ''2024-07-01'', body_file = Some photo_jpg\<rparr>"

definition stored_photo :: asset_row where
  "stored_photo =
     \<lparr>uuid = ''0f8fad5b'', imported_fullpath = ''photo.jpg'',
      imported_filename = ''photo.jpg'',
      stored_fullpath = ''assets/unclassified/0f8fad5b.jpg'',
      stored_url = ''http://minio/signed'', asset_size = 1024,
      stored_filename = ''0f8fad5b.jpg'', extension = ''jpg'', hash = Some ''d41d'',
      uploaded_at = 0\<rparr>"

definition one_asset_world :: world where
  "one_asset_world = empty_world\<lparr>assets := [''0f8fad5b'' \<mapsto> stored_photo]\<rparr>"


section \<open>Facts shared by the proofs\<close>

lemmas io_defs = and_then_def log_io_def throw_def return_def logger_def issue_def
lemmas client_defs = uploadObject_def deleteObject_def getPresignedUrl_def publish_def
lemmas db_defs = asset_create_def asset_findUnique_def meta_upsert_def
lemmas ingest_defs = ingestAsset_def ingest_try_def cleanup_def
lemmas upsert_defs = upsertMetadata_def upsert_try_def
lemmas example_defs =
  photo_jpg_def photo_upper_def lake_house_def empty_world_def quiet_env_def

lemma extname_photo_jpg: "extname ''photo.jpg'' = ''.jpg''"
  by code_simp

lemma extname_photo_upper: "extname ''photo.JPG'' = ''.JPG''"
  by code_simp

lemma basename_examples:
  "basename ''photo.jpg'' = ''photo.jpg''"
  "basename ''photo.JPG'' = ''photo.JPG''"
  "basename ''assets/unclassified/0f8fad5b.jpg'' = ''0f8fad5b.jpg''"
  "basename ''assets/unclassified/0f8fad5b.JPG'' = ''0f8fad5b.JPG''"
  by code_simp+

lemma storedPath_lake_house:
  "storedPath_try u ''.jpg'' (Some lake_house) =
     ''assets/img/family/lake_house/canon_r5/20240701/'' @ u @ ''.jpg''"
proof -
  have "toLowerCase (replace_ws ''Lake House'') = ''lake_house''" by code_simp
  moreover have "toLowerCase (replace_ws ''Canon R5'') = ''canon_r5''" by code_simp
  moreover have "or_undated (digits_only ''2024-07-01'') = ''20240701''" by code_simp
  ultimately show ?thesis
    by (simp add: storedPath_try_def lake_house_def)
qed

text \<open>The two derivations of the storage path agree.\<close>

lemma storedPath_cleanup_eq:
  "storedPath_cleanup u n m = storedPath_try u (extname n) m"
  by (simp add: storedPath_cleanup_def storedPath_try_def split: option.split)

lemma photo_jpg_fields:
  "file_name photo_jpg = ''photo.jpg''" "file_content photo_jpg = kilobyte"
  "file_size photo_jpg = 1024" "file_type photo_jpg = ''image/jpeg''"
  by (simp_all add: photo_jpg_def)

lemma empty_world_fields:
  "objects empty_world = Map.empty" "assets empty_world = Map.empty"
  "asset_meta empty_world = Map.empty" "published empty_world = []"
  "logs empty_world = []" "calls empty_world = []"
  by (simp_all add: empty_world_def)

lemma quiet_env_fields:
  "randomUUID quiet_env = ''0f8fad5b''" "putObject_throws quiet_env = None"
  "presignedGetObject_result quiet_env = Inr ''http://minio/signed''"
  "create_throws quiet_env = None" "create_time quiet_env = 0"
  "new_meta_id quiet_env = ''meta-1''" "upsert_throws quiet_env = None"
  "publish_throws quiet_env = None" "removeObject_throws quiet_env = None"
  "md5 quiet_env bs = [0xD4, 0x1D]"
  "findUnique_throws quiet_env = None" "findUnique_again_throws quiet_env = None"
  by (simp_all add: quiet_env_def)

lemma lake_house_fields:
  "asset_type lake_house = ''img''" "asset_class lake_house = ''family''"
  "asset_location_name lake_house = ''Lake House''" "asset_camera lake_house = ''Canon R5''"
  "asset_date_label lake_house = ''2024-07-01''"
  by (simp_all add: lake_house_def)

lemma create_failure_quiet_empty: "create_failure quiet_env (assets empty_world) u = None"
  by (simp add: create_failure_def quiet_env_fields empty_world_fields)

text \<open>Every call goes through: the asset that comes back.\<close>

lemma ingestAsset_returns:
  assumes "putObject_throws ev = None"
    and "presignedGetObject_result ev = Inr url"
    and "create_failure ev (assets w) (randomUUID ev) = None"
    and "publish_throws ev = None"
  shows "fst (ingestAsset ev file md w) =
     Inr (with_meta
       (new_row
         \<lparr>uuid = randomUUID ev,
          imported_fullpath = file_name file,
          imported_filename = basename (file_name file),
          stored_fullpath = storedPath_try (randomUUID ev) (extname (file_name file)) md,
          stored_url = url,
          asset_size = file_size file,
          stored_filename =
            basename (storedPath_try (randomUUID ev) (extname (file_name file)) md),
          extension = remove_first_dot (extname (file_name file)),
          hash = Some (digest_hex (md5 ev (file_content file)))\<rparr>
         (create_time ev))
       (map_option (\<lambda>m. new_meta m (new_meta_id ev) (randomUUID ev)) md))"
  using assms by (simp add: ingest_defs io_defs client_defs db_defs Let_def)

text \<open>An ingestion that returns went through every call.\<close>

lemma ingestAsset_Inr_D:
  assumes "fst (ingestAsset ev file md w) = Inr a"
  shows "putObject_throws ev = None \<and> (\<exists>url. presignedGetObject_result ev = Inr url) \<and>
     create_failure ev (assets w) (randomUUID ev) = None \<and> publish_throws ev = None"
  using assms
  by (auto simp add: ingest_defs io_defs client_defs db_defs Let_def
      split: option.splits sum.splits if_splits prod.splits)

section \<open>Compensation after a failed database write\<close>

text \<open>
  C1, as amended. When the upload and the signing of the URL succeed and the database
  write fails, \<^verbatim>\<open>ingestAsset\<close> issues exactly one delete, after the failed write, at the path
  it derives again in the \<^verbatim>\<open>catch\<close> block from the identity, the file name and the metadata;
  that path is the path of the upload; and when the delete itself does not throw, the
  bucket has no object at that path afterwards.
\<close>

theorem compensating_delete_same_path:
  assumes "putObject_throws ev = None"
    and "presignedGetObject_result ev = Inr url"
    and "create_failure ev (assets w) (randomUUID ev) = Some e"
  shows "calls (snd (ingestAsset ev file md w)) =
           calls w @
           [PutObject (storedPath_try (randomUUID ev) (extname (file_name file)) md)
              (file_content file) (file_size file) (file_type file),
            PresignedGetObject
              (storedPath_try (randomUUID ev) (extname (file_name file)) md) 86400,
            AssetCreate (randomUUID ev),
            RemoveObject (storedPath_cleanup (randomUUID ev) (file_name file) md)]
       \<and> storedPath_cleanup (randomUUID ev) (file_name file) md =
           storedPath_try (randomUUID ev) (extname (file_name file)) md
       \<and> (removeObject_throws ev = None \<longrightarrow>
           objects (snd (ingestAsset ev file md w))
             (storedPath_try (randomUUID ev) (extname (file_name file)) md) = None)"
proof -
  have same: "storedPath_cleanup (randomUUID ev) (file_name file) md =
      storedPath_try (randomUUID ev) (extname (file_name file)) md"
    by (simp add: storedPath_cleanup_def storedPath_try_def split: option.split)
  have trace: "calls (snd (ingestAsset ev file md w)) =
           calls w @
           [PutObject (storedPath_try (randomUUID ev) (extname (file_name file)) md)
              (file_content file) (file_size file) (file_type file),
            PresignedGetObject
              (storedPath_try (randomUUID ev) (extname (file_name file)) md) 86400,
            AssetCreate (randomUUID ev),
            RemoveObject (storedPath_cleanup (randomUUID ev) (file_name file) md)]"
    using assms
    by (cases "removeObject_throws ev")
       (simp_all add: ingest_defs io_defs client_defs db_defs Let_def)
  have gone: "objects (snd (ingestAsset ev file md w))
             (storedPath_try (randomUUID ev) (extname (file_name file)) md) = None"
    if "removeObject_throws ev = None"
    using assms that
    by (simp add: ingest_defs io_defs client_defs db_defs Let_def same)
  from same trace gone show ?thesis by blast
qed

text \<open>The theorem at work: the database loses its connection while \<^verbatim>\<open>photo.jpg\<close> of the
  Lake House scenario is ingested into an empty world.\<close>

theorem compensating_delete_same_path_witness:
  "putObject_throws (quiet_env\<lparr>create_throws := Some (JsError ''connection lost'')\<rparr>) = None
   \<and> presignedGetObject_result
        (quiet_env\<lparr>create_throws := Some (JsError ''connection lost'')\<rparr>)
       = Inr ''http://minio/signed''
   \<and> create_failure (quiet_env\<lparr>create_throws := Some (JsError ''connection lost'')\<rparr>)
        (assets empty_world) ''0f8fad5b'' = Some (JsError ''connection lost'')
   \<and> removeObject_throws (quiet_env\<lparr>create_throws := Some (JsError ''connection lost'')\<rparr>)
       = None
   \<and> calls (snd (ingestAsset (quiet_env\<lparr>create_throws := Some (JsError ''connection lost'')\<rparr>)
        photo_jpg (Some lake_house) empty_world)) =
       [PutObject ''assets/img/family/lake_house/canon_r5/20240701/0f8fad5b.jpg'' kilobyte
          1024 ''image/jpeg'',
        PresignedGetObject ''assets/img/family/lake_house/canon_r5/20240701/0f8fad5b.jpg''
          86400,
        AssetCreate ''0f8fad5b'',
        RemoveObject ''assets/img/family/lake_house/canon_r5/20240701/0f8fad5b.jpg'']
   \<and> objects (snd (ingestAsset (quiet_env\<lparr>create_throws := Some (JsError ''connection lost'')\<rparr>)
        photo_jpg (Some lake_house) empty_world))
        ''assets/img/family/lake_house/canon_r5/20240701/0f8fad5b.jpg'' = None"
proof -
  let ?ev = "quiet_env\<lparr>create_throws := Some (JsError ''connection lost'')\<rparr>"
  have h1: "putObject_throws ?ev = None" by (simp add: quiet_env_def)
  have h2: "presignedGetObject_result ?ev = Inr ''http://minio/signed''"
    by (simp add: quiet_env_def)
  have h3: "create_failure ?ev (assets empty_world) (randomUUID ?ev)
      = Some (JsError ''connection lost'')"
    by (simp add: create_failure_def quiet_env_def)
  have h4: "removeObject_throws ?ev = None" by (simp add: quiet_env_def)
  have u: "randomUUID ?ev = ''0f8fad5b''" by (simp add: quiet_env_def)
  show ?thesis
    using compensating_delete_same_path [OF h1 h2 h3, of photo_jpg "Some lake_house"]
      h1 h2 h3 h4
    by (simp add: u empty_world_fields photo_jpg_fields extname_photo_jpg
        storedPath_lake_house)
qed

text \<open>C1 as stated fails where the delete throws too: the database write fails after the
  upload, the delete is issued at the path of the upload, and the object is still in the
  bucket afterwards.\<close>

theorem delete_failure_leaves_object:
  "calls (snd (ingestAsset
      (quiet_env\<lparr>create_throws := Some (JsError ''connection lost''),
                 removeObject_throws := Some (JsError ''bucket unreachable'')\<rparr>)
      photo_jpg None empty_world))
   = [PutObject ''assets/unclassified/0f8fad5b.jpg'' kilobyte 1024 ''image/jpeg'',
      PresignedGetObject ''assets/unclassified/0f8fad5b.jpg'' 86400,
      AssetCreate ''0f8fad5b'',
      RemoveObject ''assets/unclassified/0f8fad5b.jpg'']
   \<and> objects (snd (ingestAsset
      (quiet_env\<lparr>create_throws := Some (JsError ''connection lost''),
                 removeObject_throws := Some (JsError ''bucket unreachable'')\<rparr>)
      photo_jpg None empty_world)) ''assets/unclassified/0f8fad5b.jpg''
   = Some \<lparr>object_data = kilobyte, object_size = 1024, object_content_type = ''image/jpeg''\<rparr>"
  by (simp add: ingest_defs io_defs client_defs db_defs Let_def create_failure_def
      example_defs extname_photo_jpg storedPath_try_def storedPath_cleanup_def)

text \<open>
  C8, as amended. When the database write fails after the upload and the compensating
  delete throws too, the error that reaches the caller is neither the cleanup error nor
  the database error itself: it is the controller's generic
  \<^verbatim>\<open>ServerError('Failed to ingest asset', 500)\<close>. The message of the database error is
  logged under \<^verbatim>\<open>Asset ingestion failed:\<close>, and the cleanup failure is logged apart from it,
  by the client and under \<^verbatim>\<open>Failed to clean up after failed asset ingestion:\<close>.
\<close>

theorem cleanup_failure_keeps_generic_error:
  assumes "putObject_throws ev = None"
    and "presignedGetObject_result ev = Inr url"
    and "create_failure ev (assets w) (randomUUID ev) = Some e"
    and "removeObject_throws ev = Some c"
  shows "fst (ingestAsset ev file md w) = Inl (ServerError ''Failed to ingest asset'' 500)
       \<and> logs (snd (ingestAsset ev file md w)) =
           logs w @
           [(Info, ''Starting asset ingestion: '' @ randomUUID ev,
             Fields [(''filename'', Str (file_name file)), (''size'', Num (file_size file)),
                     (''type'', Str (file_type file))]),
            (Info, ''Uploading file to MinIO: ''
                   @ storedPath_try (randomUUID ev) (extname (file_name file)) md, NoDetail),
            (Info, ''Uploaded object: ''
                   @ storedPath_try (randomUUID ev) (extname (file_name file)) md, NoDetail),
            (Info, ''Creating asset record in database: '' @ randomUUID ev, NoDetail),
            (Error, ''Asset ingestion failed:'',
             Fields [(''error'', Str (error_message (Foreign e))),
                     (''assetUuid'', Str (randomUUID ev)),
                     (''filename'', Str (file_name file))]),
            (Error, ''Error deleting object: ''
                    @ storedPath_try (randomUUID ev) (extname (file_name file)) md,
             Caught (Foreign c)),
            (Error, ''Failed to clean up after failed asset ingestion:'', Caught (Foreign c))]"
proof -
  have r: "fst (ingestAsset ev file md w) = Inl (ServerError ''Failed to ingest asset'' 500)"
    using assms by (simp add: ingest_defs io_defs client_defs db_defs Let_def)
  have l: "logs (snd (ingestAsset ev file md w)) =
           logs w @
           [(Info, ''Starting asset ingestion: '' @ randomUUID ev,
             Fields [(''filename'', Str (file_name file)), (''size'', Num (file_size file)),
                     (''type'', Str (file_type file))]),
            (Info, ''Uploading file to MinIO: ''
                   @ storedPath_try (randomUUID ev) (extname (file_name file)) md, NoDetail),
            (Info, ''Uploaded object: ''
                   @ storedPath_try (randomUUID ev) (extname (file_name file)) md, NoDetail),
            (Info, ''Creating asset record in database: '' @ randomUUID ev, NoDetail),
            (Error, ''Asset ingestion failed:'',
             Fields [(''error'', Str (error_message (Foreign e))),
                     (''assetUuid'', Str (randomUUID ev)),
                     (''filename'', Str (file_name file))]),
            (Error, ''Error deleting object: ''
                    @ storedPath_try (randomUUID ev) (extname (file_name file)) md,
             Caught (Foreign c)),
            (Error, ''Failed to clean up after failed asset ingestion:'', Caught (Foreign c))]"
    using assms
    by (simp add: ingest_defs io_defs client_defs db_defs Let_def storedPath_cleanup_eq)
  from r l show ?thesis by blast
qed

theorem cleanup_failure_keeps_generic_error_witness:
  "putObject_throws (quiet_env\<lparr>create_throws := Some (NonError ''timeout''),
       removeObject_throws := Some (JsError ''bucket unreachable'')\<rparr>) = None
   \<and> create_failure (quiet_env\<lparr>create_throws := Some (NonError ''timeout''),
       removeObject_throws := Some (JsError ''bucket unreachable'')\<rparr>)
       (assets empty_world) ''0f8fad5b'' = Some (NonError ''timeout'')
   \<and> removeObject_throws (quiet_env\<lparr>create_throws := Some (NonError ''timeout''),
       removeObject_throws := Some (JsError ''bucket unreachable'')\<rparr>)
       = Some (JsError ''bucket unreachable'')
   \<and> fst (ingestAsset (quiet_env\<lparr>create_throws := Some (NonError ''timeout''),
       removeObject_throws := Some (JsError ''bucket unreachable'')\<rparr>)
       photo_jpg (Some lake_house) empty_world)
       = Inl (ServerError ''Failed to ingest asset'' 500)
   \<and> last (logs (snd (ingestAsset (quiet_env\<lparr>create_throws := Some (NonError ''timeout''),
       removeObject_throws := Some (JsError ''bucket unreachable'')\<rparr>)
       photo_jpg (Some lake_house) empty_world)))
       = (Error, ''Failed to clean up after failed asset ingestion:'',
          Caught (Foreign (JsError ''bucket unreachable'')))"
proof -
  let ?ev = "quiet_env\<lparr>create_throws := Some (NonError ''timeout''),
       removeObject_throws := Some (JsError ''bucket unreachable'')\<rparr>"
  have h1: "putObject_throws ?ev = None" by (simp add: quiet_env_def)
  have h2: "presignedGetObject_result ?ev = Inr ''http://minio/signed''"
    by (simp add: quiet_env_def)
  have h3: "create_failure ?ev (assets empty_world) (randomUUID ?ev)
      = Some (NonError ''timeout'')"
    by (simp add: create_failure_def quiet_env_def)
  have h4: "removeObject_throws ?ev = Some (JsError ''bucket unreachable'')"
    by (simp add: quiet_env_def)
  have u: "randomUUID ?ev = ''0f8fad5b''" by (simp add: quiet_env_def)
  show ?thesis
    using cleanup_failure_keeps_generic_error [OF h1 h2 h3 h4, of photo_jpg "Some lake_house"]
      h1 h3 h4
    by (simp add: u empty_world_fields)
qed

text \<open>C8 as stated fails: the database error \<^verbatim>\<open>connection lost\<close> is not what the caller
  gets when the delete fails after it.\<close>

theorem cleanup_failure_counterexample:
  "fst (ingestAsset
      (quiet_env\<lparr>create_throws := Some (JsError ''connection lost''),
                 removeObject_throws := Some (JsError ''bucket unreachable'')\<rparr>)
      photo_jpg None empty_world)
   = Inl (ServerError ''Failed to ingest asset'' 500)
   \<and> fst (ingestAsset
      (quiet_env\<lparr>create_throws := Some (JsError ''connection lost''),
                 removeObject_throws := Some (JsError ''bucket unreachable'')\<rparr>)
      photo_jpg None empty_world)
   \<noteq> Inl (Foreign (JsError ''connection lost''))"
  by (simp add: ingest_defs io_defs client_defs db_defs Let_def create_failure_def
      example_defs extname_photo_jpg storedPath_try_def storedPath_cleanup_def)

section \<open>A failed publish\<close>

text \<open>
  C2, as amended. \<^verbatim>\<open>RedisClient.publish\<close> throws its error again and \<^verbatim>\<open>ingestAsset\<close>
  awaits it inside the \<^verbatim>\<open>try\<close> block. So when the upload, the signing and the database
  write succeed and the publish throws, \<^verbatim>\<open>ingestAsset\<close> fails with
  \<^verbatim>\<open>ServerError('Failed to ingest asset', 500)\<close> and returns no asset; the error is
  logged; the compensating delete is issued at the path of the upload; and nothing is
  published.
\<close>

theorem publish_failure_fails_ingestion:
  assumes "putObject_throws ev = None"
    and "presignedGetObject_result ev = Inr url"
    and "create_failure ev (assets w) (randomUUID ev) = None"
    and "publish_throws ev = Some e"
  shows "fst (ingestAsset ev file md w) = Inl (ServerError ''Failed to ingest asset'' 500)
       \<and> calls (snd (ingestAsset ev file md w)) =
           calls w @
           [PutObject (storedPath_try (randomUUID ev) (extname (file_name file)) md)
              (file_content file) (file_size file) (file_type file),
            PresignedGetObject (storedPath_try (randomUUID ev) (extname (file_name file)) md) 86400,
            AssetCreate (randomUUID ev),
            RedisPublish ''asset_ingested'',
            RemoveObject (storedPath_try (randomUUID ev) (extname (file_name file)) md)]
       \<and> (Error, ''Asset ingestion failed:'',
            Fields [(''error'', Str (error_message (Foreign e))),
                    (''assetUuid'', Str (randomUUID ev)),
                    (''filename'', Str (file_name file))])
           \<in> set (logs (snd (ingestAsset ev file md w)))
       \<and> published (snd (ingestAsset ev file md w)) = published w"
proof -
  have r: "fst (ingestAsset ev file md w) = Inl (ServerError ''Failed to ingest asset'' 500)"
    using assms by (simp add: ingest_defs io_defs client_defs db_defs Let_def)
  have c: "calls (snd (ingestAsset ev file md w)) =
           calls w @
           [PutObject (storedPath_try (randomUUID ev) (extname (file_name file)) md)
              (file_content file) (file_size file) (file_type file),
            PresignedGetObject (storedPath_try (randomUUID ev) (extname (file_name file)) md) 86400,
            AssetCreate (randomUUID ev),
            RedisPublish ''asset_ingested'',
            RemoveObject (storedPath_try (randomUUID ev) (extname (file_name file)) md)]"
    using assms
    by (cases "removeObject_throws ev")
       (simp_all add: ingest_defs io_defs client_defs db_defs Let_def storedPath_cleanup_eq)
  have l: "(Error, ''Asset ingestion failed:'',
            Fields [(''error'', Str (error_message (Foreign e))),
                    (''assetUuid'', Str (randomUUID ev)),
                    (''filename'', Str (file_name file))])
           \<in> set (logs (snd (ingestAsset ev file md w)))"
    using assms
    by (cases "removeObject_throws ev")
       (simp_all add: ingest_defs io_defs client_defs db_defs Let_def)
  have p: "published (snd (ingestAsset ev file md w)) = published w"
    using assms
    by (cases "removeObject_throws ev")
       (simp_all add: ingest_defs io_defs client_defs db_defs Let_def)
  from r c l p show ?thesis by blast
qed

theorem publish_failure_fails_ingestion_witness:
  "putObject_throws (quiet_env\<lparr>publish_throws := Some (NonError ''ECONNRESET'')\<rparr>) = None
   \<and> create_failure (quiet_env\<lparr>publish_throws := Some (NonError ''ECONNRESET'')\<rparr>)
       (assets empty_world) ''0f8fad5b'' = None
   \<and> publish_throws (quiet_env\<lparr>publish_throws := Some (NonError ''ECONNRESET'')\<rparr>)
       = Some (NonError ''ECONNRESET'')
   \<and> fst (ingestAsset (quiet_env\<lparr>publish_throws := Some (NonError ''ECONNRESET'')\<rparr>)
       photo_jpg (Some lake_house) empty_world)
       = Inl (ServerError ''Failed to ingest asset'' 500)
   \<and> last (calls (snd (ingestAsset (quiet_env\<lparr>publish_throws := Some (NonError ''ECONNRESET'')\<rparr>)
       photo_jpg (Some lake_house) empty_world)))
       = RemoveObject ''assets/img/family/lake_house/canon_r5/20240701/0f8fad5b.jpg''
   \<and> published (snd (ingestAsset (quiet_env\<lparr>publish_throws := Some (NonError ''ECONNRESET'')\<rparr>)
       photo_jpg (Some lake_house) empty_world)) = []"
proof -
  let ?ev = "quiet_env\<lparr>publish_throws := Some (NonError ''ECONNRESET'')\<rparr>"
  have h1: "putObject_throws ?ev = None" by (simp add: quiet_env_def)
  have h2: "presignedGetObject_result ?ev = Inr ''http://minio/signed''"
    by (simp add: quiet_env_def)
  have h3: "create_failure ?ev (assets empty_world) (randomUUID ?ev) = None"
    by (simp add: create_failure_def quiet_env_def empty_world_fields)
  have h4: "publish_throws ?ev = Some (NonError ''ECONNRESET'')"
    by (simp add: quiet_env_def)
  have u: "randomUUID ?ev = ''0f8fad5b''" by (simp add: quiet_env_def)
  show ?thesis
    using publish_failure_fails_ingestion [OF h1 h2 h3 h4, of photo_jpg "Some lake_house"]
      h1 h3 h4
    by (simp add: u empty_world_fields photo_jpg_fields extname_photo_jpg
        storedPath_lake_house)
qed

text \<open>C2 as stated fails: with a Redis that is down, the ingestion of \<^verbatim>\<open>photo.jpg\<close>
  fails, no asset is returned, and the last call removes the uploaded object.\<close>

theorem publish_failure_counterexample:
  "fst (ingestAsset (quiet_env\<lparr>publish_throws := Some (JsError ''redis down'')\<rparr>)
          photo_jpg None empty_world)
     = Inl (ServerError ''Failed to ingest asset'' 500)
   \<and> calls (snd (ingestAsset (quiet_env\<lparr>publish_throws := Some (JsError ''redis down'')\<rparr>)
          photo_jpg None empty_world))
     = [PutObject ''assets/unclassified/0f8fad5b.jpg'' kilobyte 1024 ''image/jpeg'',
        PresignedGetObject ''assets/unclassified/0f8fad5b.jpg'' 86400,
        AssetCreate ''0f8fad5b'',
        RedisPublish ''asset_ingested'',
        RemoveObject ''assets/unclassified/0f8fad5b.jpg'']"
  by (simp add: ingest_defs io_defs client_defs db_defs Let_def create_failure_def
      example_defs extname_photo_jpg storedPath_try_def storedPath_cleanup_def)

section \<open>What holds of every ingestion\<close>

text \<open>The ways an ingestion can go, by the first call that throws.\<close>

lemma env_cases [case_names put presign create publish quiet]:
  assumes "\<And>e. putObject_throws ev = Some e \<Longrightarrow> P"
    and "\<And>e. putObject_throws ev = None \<Longrightarrow> presignedGetObject_result ev = Inl e \<Longrightarrow> P"
    and "\<And>url e. putObject_throws ev = None \<Longrightarrow> presignedGetObject_result ev = Inr url \<Longrightarrow>
           create_failure ev table u = Some e \<Longrightarrow> P"
    and "\<And>url e. putObject_throws ev = None \<Longrightarrow> presignedGetObject_result ev = Inr url \<Longrightarrow>
           create_failure ev table u = None \<Longrightarrow> publish_throws ev = Some e \<Longrightarrow> P"
    and "\<And>url. putObject_throws ev = None \<Longrightarrow> presignedGetObject_result ev = Inr url \<Longrightarrow>
           create_failure ev table u = None \<Longrightarrow> publish_throws ev = None \<Longrightarrow> P"
  shows P
proof (cases "putObject_throws ev")
  case None
  note put = this
  show ?thesis
  proof (cases "presignedGetObject_result ev")
    case (Inl e)
    with put assms(2) show ?thesis by blast
  next
    case (Inr url)
    note presign = this
    show ?thesis
    proof (cases "create_failure ev table u")
      case None
      with put presign assms(4,5) show ?thesis by (cases "publish_throws ev") blast+
    next
      case (Some e)
      with put presign assms(3) show ?thesis by blast
    qed
  qed
next
  case (Some e)
  with assms(1) show ?thesis by blast
qed

text \<open>What holds of every ingestion, whatever the outside does: the first call is the
  upload at the derived path; without metadata no metadata row is written; and the only
  error is the generic one.\<close>

lemma ingestAsset_always:
  "case ingestAsset ev f md w of (r, w') \<Rightarrow>
     (\<exists>rest. calls w' =
        calls w @ PutObject (storedPath_try (randomUUID ev) (extname (file_name f)) md)
          (file_content f) (file_size f) (file_type f) # rest)
     \<and> (md = None \<longrightarrow> asset_meta w' = asset_meta w)
     \<and> (\<forall>x. r = Inl x \<longrightarrow> x = ServerError ''Failed to ingest asset'' 500)"
  by (rule env_cases [where ev = ev and table = "assets w" and u = "randomUUID ev"];
      cases "removeObject_throws ev";
      simp add: ingest_defs io_defs client_defs db_defs Let_def)

lemma ingestAsset_first_call:
  "\<exists>rest. calls (snd (ingestAsset ev f md w)) =
     calls w @ PutObject (storedPath_try (randomUUID ev) (extname (file_name f)) md)
       (file_content f) (file_size f) (file_type f) # rest"
  using ingestAsset_always [where ev = ev and f = f and md = md and w = w]
  by (simp add: case_prod_unfold)

lemma ingestAsset_None_meta:
  "asset_meta (snd (ingestAsset ev f None w)) = asset_meta w"
  using ingestAsset_always [where ev = ev and f = f and md = None and w = w]
  by (simp add: case_prod_unfold)

lemma ingestAsset_Inl_D:
  "fst (ingestAsset ev f md w) = Inl x \<Longrightarrow> x = ServerError ''Failed to ingest asset'' 500"
  using ingestAsset_always [where ev = ev and f = f and md = md and w = w]
  by (simp add: case_prod_unfold)

text \<open>An ingestion that returns: the asset, and the world it leaves.\<close>

lemma ingestAsset_Inr_asset:
  assumes "fst (ingestAsset ev file md w) = Inr a"
  shows "extension a = remove_first_dot (extname (file_name file))"
    and "hash a = Some (digest_hex (md5 ev (file_content file)))"
    and "uuid a = randomUUID ev"
    and "stored_fullpath a = storedPath_try (randomUUID ev) (extname (file_name file)) md"
    and "meta_base a = map_option (\<lambda>m. new_meta m (new_meta_id ev) (randomUUID ev)) md"
proof -
  from ingestAsset_Inr_D [OF assms] obtain url where
    h: "putObject_throws ev = None" "presignedGetObject_result ev = Inr url"
       "create_failure ev (assets w) (randomUUID ev) = None" "publish_throws ev = None"
    by blast
  from ingestAsset_returns [OF h, of "file" md] assms
  show "extension a = remove_first_dot (extname (file_name file))"
    and "hash a = Some (digest_hex (md5 ev (file_content file)))"
    and "uuid a = randomUUID ev"
    and "stored_fullpath a = storedPath_try (randomUUID ev) (extname (file_name file)) md"
    and "meta_base a = map_option (\<lambda>m. new_meta m (new_meta_id ev) (randomUUID ev)) md"
    by (auto simp add: with_meta_def new_row_def)
qed

lemma ingestAsset_Inr_world:
  assumes "fst (ingestAsset ev file md w) = Inr a"
  shows "objects (snd (ingestAsset ev file md w)) (stored_fullpath a) =
      Some \<lparr>object_data = file_content file, object_size = file_size file,
            object_content_type = file_type file\<rparr>"
    and "map_option hash (assets (snd (ingestAsset ev file md w)) (uuid a)) = Some (hash a)"
    and "calls (snd (ingestAsset ev file md w)) =
           calls w @
           [PutObject (stored_fullpath a) (file_content file) (file_size file) (file_type file),
            PresignedGetObject (stored_fullpath a) 86400,
            AssetCreate (uuid a),
            RedisPublish ''asset_ingested'']"
proof -
  from ingestAsset_Inr_D [OF assms] obtain url where
    h: "putObject_throws ev = None" "presignedGetObject_result ev = Inr url"
       "create_failure ev (assets w) (randomUUID ev) = None" "publish_throws ev = None"
    by blast
  note a = ingestAsset_Inr_asset [OF assms]
  show "objects (snd (ingestAsset ev file md w)) (stored_fullpath a) =
      Some \<lparr>object_data = file_content file, object_size = file_size file,
            object_content_type = file_type file\<rparr>"
    using h by (simp add: a ingest_defs io_defs client_defs db_defs Let_def)
  show "map_option hash (assets (snd (ingestAsset ev file md w)) (uuid a)) = Some (hash a)"
    using h by (simp add: a ingest_defs io_defs client_defs db_defs Let_def new_row_def)
  show "calls (snd (ingestAsset ev file md w)) =
           calls w @
           [PutObject (stored_fullpath a) (file_content file) (file_size file) (file_type file),
            PresignedGetObject (stored_fullpath a) 86400,
            AssetCreate (uuid a),
            RedisPublish ''asset_ingested'']"
    using h by (simp add: a ingest_defs io_defs client_defs db_defs Let_def)
qed

section \<open>The stored path and the extension\<close>

text \<open>
  C3, as amended. The file \<^verbatim>\<open>photo.jpg\<close> of 1024 bytes ingested with the metadata img,
  family, Lake House, Canon R5, 2024-07-01, every call going through, is stored at
  \<^verbatim>\<open>assets/img/family/lake_house/canon_r5/20240701/{id}.jpg\<close>: the camera segment keeps an
  underscore where the name had its space. The extension is \<^verbatim>\<open>jpg\<close>, the size 1024, and
  the asset returned carries the five metadata values as they were given.
\<close>

theorem lake_house_scenario:
  assumes "putObject_throws ev = None"
    and "presignedGetObject_result ev = Inr url"
    and "create_failure ev (assets w) (randomUUID ev) = None"
    and "publish_throws ev = None"
    and "file_name file = ''photo.jpg''"
    and "file_size file = 1024"
  shows "\<exists>a. fst (ingestAsset ev file (Some lake_house) w) = Inr a
       \<and> stored_fullpath a =
           ''assets/img/family/lake_house/canon_r5/20240701/'' @ randomUUID ev @ ''.jpg''
       \<and> extension a = ''jpg''
       \<and> asset_size a = 1024
       \<and> (\<exists>m. meta_base a = Some m
              \<and> asset_type m = ''img'' \<and> asset_class m = ''family''
              \<and> asset_location_name m = ''Lake House'' \<and> asset_camera m = ''Canon R5''
              \<and> asset_date_label m = ''2024-07-01'')"
  using ingestAsset_returns [OF assms(1-4), of "file" "Some lake_house"] assms(5,6)
  by (simp add: with_meta_def new_row_def new_meta_def extname_photo_jpg
      storedPath_lake_house lake_house_fields)

theorem lake_house_scenario_witness:
  "create_failure quiet_env (assets empty_world) ''0f8fad5b'' = None
   \<and> file_name photo_jpg = ''photo.jpg'' \<and> file_size photo_jpg = 1024
   \<and> (\<exists>a. fst (ingestAsset quiet_env photo_jpg (Some lake_house) empty_world) = Inr a
       \<and> stored_fullpath a = ''assets/img/family/lake_house/canon_r5/20240701/0f8fad5b.jpg''
       \<and> extension a = ''jpg''
       \<and> asset_size a = 1024
       \<and> (\<exists>m. meta_base a = Some m
              \<and> asset_type m = ''img'' \<and> asset_class m = ''family''
              \<and> asset_location_name m = ''Lake House'' \<and> asset_camera m = ''Canon R5''
              \<and> asset_date_label m = ''2024-07-01''))"
proof -
  have h3: "create_failure quiet_env (assets empty_world) (randomUUID quiet_env) = None"
    by (rule create_failure_quiet_empty)
  show ?thesis
    using lake_house_scenario [OF quiet_env_fields(2) quiet_env_fields(3) h3
        quiet_env_fields(8) photo_jpg_fields(1) photo_jpg_fields(3)]
      create_failure_quiet_empty
    by (simp add: quiet_env_fields(1) photo_jpg_fields)
qed

text \<open>C3 as stated fails: the path of the scenario is not the one with the segment
  \<^verbatim>\<open>canonr5\<close>.\<close>

theorem camera_segment_counterexample:
  "map_sum error_message stored_fullpath
     (fst (ingestAsset quiet_env photo_jpg (Some lake_house) empty_world))
     = Inr ''assets/img/family/lake_house/canon_r5/20240701/0f8fad5b.jpg''
   \<and> map_sum error_message stored_fullpath
     (fst (ingestAsset quiet_env photo_jpg (Some lake_house) empty_world))
     \<noteq> Inr ''assets/img/family/lake_house/canonr5/20240701/0f8fad5b.jpg''"
  using ingestAsset_returns [OF quiet_env_fields(2) quiet_env_fields(3)
      create_failure_quiet_empty quiet_env_fields(8), of photo_jpg "Some lake_house"]
  by (simp add: with_meta_def new_row_def quiet_env_fields(1) photo_jpg_fields
      extname_photo_jpg storedPath_lake_house)

text \<open>Without its dot, an extension is what follows the last dot of the base name.\<close>

lemma remove_first_dot_extname:
  "remove_first_dot (extname n) =
     (if extname n = [] then [] else after_last_dot (basename n))"
  by (simp add: extname_def Let_def)

text \<open>
  C9, as amended. The extension of an ingested asset is \<^verbatim>\<open>path.extname\<close> of the file
  name without its leading dot: the characters after the last dot of the last path
  component, in the case they have in the name (nothing lower-cases them), and the empty
  string when \<^verbatim>\<open>path.extname\<close> is empty.
\<close>

theorem extension_keeps_case:
  assumes "fst (ingestAsset ev file md w) = Inr a"
  shows "extension a = remove_first_dot (extname (file_name file))
       \<and> extension a =
           (if extname (file_name file) = [] then []
            else after_last_dot (basename (file_name file)))"
  using ingestAsset_Inr_asset(1) [OF assms] by (simp add: remove_first_dot_extname)

text \<open>The ingestion of \<^verbatim>\<open>photo.JPG\<close> without metadata, every call going through.\<close>

lemma digest_hex_example: "digest_hex [0xD4, 0x1D] = ''d41d''"
  by code_simp

lemma ingest_photo_upper:
  "fst (ingestAsset quiet_env photo_upper None empty_world) =
     Inr \<lparr>uuid = ''0f8fad5b'', imported_fullpath = ''photo.JPG'',
          imported_filename = ''photo.JPG'',
          stored_fullpath = ''assets/unclassified/0f8fad5b.JPG'',
          stored_url = ''http://minio/signed'', asset_size = 1024,
          stored_filename = ''0f8fad5b.JPG'', extension = ''JPG'', hash = Some ''d41d'',
          uploaded_at = 0, meta_base = None\<rparr>"
  using ingestAsset_returns [OF quiet_env_fields(2) quiet_env_fields(3)
      create_failure_quiet_empty quiet_env_fields(8), of photo_upper None]
  by (simp add: quiet_env_fields photo_upper_def extname_photo_upper storedPath_try_def
      with_meta_def new_row_def basename_examples digest_hex_example)

theorem extension_keeps_case_witness:
  "fst (ingestAsset quiet_env photo_upper None empty_world) =
     Inr \<lparr>uuid = ''0f8fad5b'', imported_fullpath = ''photo.JPG'',
          imported_filename = ''photo.JPG'',
          stored_fullpath = ''assets/unclassified/0f8fad5b.JPG'',
          stored_url = ''http://minio/signed'', asset_size = 1024,
          stored_filename = ''0f8fad5b.JPG'', extension = ''JPG'', hash = Some ''d41d'',
          uploaded_at = 0, meta_base = None\<rparr>
   \<and> remove_first_dot (extname ''photo.JPG'') = ''JPG''
   \<and> after_last_dot (basename ''photo.JPG'') = ''JPG''"
  using extension_keeps_case [OF ingest_photo_upper] ingest_photo_upper
  by (simp add: photo_upper_def extname_photo_upper)

text \<open>C9 as stated fails: the suffix \<^verbatim>\<open>JPG\<close> is stored as it is, and its lower-case form
  is another string.\<close>

theorem upper_case_suffix_counterexample:
  "map_sum error_message extension
     (fst (ingestAsset quiet_env photo_upper (Some lake_house) empty_world)) = Inr ''JPG''
   \<and> toLowerCase (after_last_dot ''photo.JPG'') = ''jpg''
   \<and> map_sum error_message extension
     (fst (ingestAsset quiet_env photo_upper (Some lake_house) empty_world)) \<noteq> Inr ''jpg''"
proof -
  have "toLowerCase (after_last_dot ''photo.JPG'') = ''jpg''" by code_simp
  then show ?thesis
    using ingestAsset_returns [OF quiet_env_fields(2) quiet_env_fields(3)
      create_failure_quiet_empty quiet_env_fields(8), of photo_upper "Some lake_house"]
    by (simp add: with_meta_def new_row_def photo_upper_def extname_photo_upper)
qed

section \<open>The content hash\<close>

lemma hex_digit_lower: "n < 16 \<Longrightarrow> hex_digit n \<in> set ''0123456789abcdef''"
proof -
  assume "n < 16"
  then have "n \<in> set [0..<16]" by simp
  moreover have "list_all (\<lambda>n. hex_digit n \<in> set ''0123456789abcdef'') [0..<16]"
    by code_simp
  ultimately show ?thesis unfolding list_all_iff by blast
qed

lemma hex_of_byte_lower: "set (hex_of_byte b) \<subseteq> set ''0123456789abcdef''"
proof -
  have "unat b < 2 ^ 8" using unsigned_less [of b] by simp
  then have "unat b div 16 < 16" by simp
  then have hi: "hex_digit (unat b div 16) \<in> set ''0123456789abcdef''"
    by (rule hex_digit_lower)
  have "unat b mod 16 < 16" by simp
  then have lo: "hex_digit (unat b mod 16) \<in> set ''0123456789abcdef''"
    by (rule hex_digit_lower)
  from hi lo show ?thesis by (simp add: hex_of_byte_def)
qed

lemma set_concat_map_subset:
  "(\<And>x. set (f x) \<subseteq> S) \<Longrightarrow> set (concat (map f xs)) \<subseteq> S"
  by auto

lemma digest_hex_lower: "set (digest_hex bs) \<subseteq> set ''0123456789abcdef''"
  unfolding digest_hex_def by (rule set_concat_map_subset) (rule hex_of_byte_lower)

lemma digest_hex_length: "length (digest_hex bs) = 2 * length bs"
  by (induction bs) (simp_all add: digest_hex_def hex_of_byte_def)

text \<open>
  C10. The hash of an ingested asset is the MD5 digest of the file's bytes written as
  lower-case hexadecimal digits, two for each byte of the digest (MD5 itself is the
  runtime's function, a parameter here); these bytes are the ones the upload call sends
  and the bucket then holds at the asset's path, and the row in \<^verbatim>\<open>assets\<close> has the same
  hash.
\<close>

theorem hash_is_md5_hex_of_uploaded_bytes:
  assumes "fst (ingestAsset ev file md w) = Inr a"
  shows "hash a = Some (digest_hex (md5 ev (file_content file)))
       \<and> set (digest_hex (md5 ev (file_content file))) \<subseteq> set ''0123456789abcdef''
       \<and> length (digest_hex (md5 ev (file_content file)))
           = 2 * length (md5 ev (file_content file))
       \<and> map_option object_data (objects (snd (ingestAsset ev file md w)) (stored_fullpath a))
           = Some (file_content file)
       \<and> hd (drop (length (calls w)) (calls (snd (ingestAsset ev file md w))))
           = PutObject (stored_fullpath a) (file_content file) (file_size file) (file_type file)
       \<and> map_option hash (assets (snd (ingestAsset ev file md w)) (uuid a)) = Some (hash a)"
  using ingestAsset_Inr_asset(2) [OF assms] ingestAsset_Inr_world [OF assms]
    digest_hex_lower [of "md5 ev (file_content file)"]
    digest_hex_length [of "md5 ev (file_content file)"]
  by (simp del: list.set)

theorem hash_is_md5_hex_of_uploaded_bytes_witness:
  "fst (ingestAsset quiet_env photo_upper None empty_world) =
     Inr \<lparr>uuid = ''0f8fad5b'', imported_fullpath = ''photo.JPG'',
          imported_filename = ''photo.JPG'',
          stored_fullpath = ''assets/unclassified/0f8fad5b.JPG'',
          stored_url = ''http://minio/signed'', asset_size = 1024,
          stored_filename = ''0f8fad5b.JPG'', extension = ''JPG'', hash = Some ''d41d'',
          uploaded_at = 0, meta_base = None\<rparr>
   \<and> digest_hex (md5 quiet_env kilobyte) = ''d41d''
   \<and> map_option object_data
        (objects (snd (ingestAsset quiet_env photo_upper None empty_world))
           ''assets/unclassified/0f8fad5b.JPG'') = Some kilobyte
   \<and> map_option hash
        (assets (snd (ingestAsset quiet_env photo_upper None empty_world)) ''0f8fad5b'')
       = Some (Some ''d41d'')"
  using hash_is_md5_hex_of_uploaded_bytes [OF ingest_photo_upper] ingest_photo_upper
  by (simp add: photo_upper_def quiet_env_fields(10) digest_hex_example)

section \<open>Partial metadata at ingestion\<close>

lemma truthy_iff: "truthy v \<longleftrightarrow> v \<notin> {None, Some []}"
  by (cases v) (simp_all add: truthy_def)

text \<open>The ingest route with a file and without all five fields: what it does.\<close>

lemma ingestRoute_partial:
  assumes "body_file body = Some file" and "\<not> hasAllMetadataFields body"
  shows "ingestRoute ev body w =
     (case ingestAsset ev file None
             (logger Info ''Ingesting asset without metadata''
                (Fields [(''filename'', Str (file_name file)),
                         (''size'', Num (file_size file)),
                         (''type'', Str (file_type file))]) w) of
        (Inr asset, w') \<Rightarrow>
          (\<lparr>resp_status = 200, resp_success = True, resp_data = Some asset,
            resp_error = None\<rparr>, w')
      | (Inl error, w') \<Rightarrow>
          (\<lparr>resp_status = status_code error, resp_success = False, resp_data = None,
            resp_error = Some (message_or error ''Failed to ingest asset'')\<rparr>,
           logger Error ''Failed to ingest asset:'' (Caught error) w'))"
  using assms by (simp add: ingestRoute_def)

text \<open>
  C4. A request to the ingest route with a file, in which one of the five metadata
  fields at least is absent or empty, is handled as the same request without any
  metadata field: the upload goes to \<^verbatim>\<open>assets/unclassified/{id}{extension}\<close>, the table
  \<^verbatim>\<open>asset_meta_base\<close> is left as it was, an asset that is returned has that path and no
  metadata, and the request is not rejected (the status is 200, or 500 when a call
  failed).
\<close>

theorem partial_metadata_is_discarded:
  assumes "body_file body = Some file"
    and "body_asset_type body \<in> {None, Some []} \<or> body_asset_class body \<in> {None, Some []}
       \<or> body_asset_location_name body \<in> {None, Some []}
       \<or> body_asset_camera body \<in> {None, Some []}
       \<or> body_asset_date_label body \<in> {None, Some []}"
  shows "ingestRoute ev body w =
           ingestRoute ev
             (body\<lparr>body_asset_type := None, body_asset_class := None,
                   body_asset_location_name := None, body_asset_camera := None,
                   body_asset_date_label := None\<rparr>) w
       \<and> (\<exists>rest. calls (snd (ingestRoute ev body w)) =
             calls w @ PutObject (''assets/unclassified/'' @ randomUUID ev
                                   @ extname (file_name file))
               (file_content file) (file_size file) (file_type file) # rest)
       \<and> asset_meta (snd (ingestRoute ev body w)) = asset_meta w
       \<and> (\<forall>a. resp_data (fst (ingestRoute ev body w)) = Some a \<longrightarrow>
             stored_fullpath a = ''assets/unclassified/'' @ randomUUID ev
                                   @ extname (file_name file)
             \<and> meta_base a = None)
       \<and> resp_status (fst (ingestRoute ev body w)) \<in> {200, 500}"
proof -
  let ?w0 = "logger Info ''Ingesting asset without metadata''
                (Fields [(''filename'', Str (file_name file)),
                         (''size'', Num (file_size file)),
                         (''type'', Str (file_type file))]) w"
  from assms(2) have partial: "\<not> hasAllMetadataFields body"
    by (auto simp add: hasAllMetadataFields_def truthy_iff)
  have none: "\<not> hasAllMetadataFields
     (body\<lparr>body_asset_type := None, body_asset_class := None,
           body_asset_location_name := None, body_asset_camera := None,
           body_asset_date_label := None\<rparr>)"
    by (simp add: hasAllMetadataFields_def truthy_def)
  have same: "ingestRoute ev body w =
           ingestRoute ev
             (body\<lparr>body_asset_type := None, body_asset_class := None,
                   body_asset_location_name := None, body_asset_camera := None,
                   body_asset_date_label := None\<rparr>) w"
    using assms(1) by (simp add: ingestRoute_partial [OF _ partial] ingestRoute_partial [OF _ none])
  obtain r w' where run: "ingestAsset ev file None ?w0 = (r, w')"
    by (cases "ingestAsset ev file None ?w0")
  have w0: "calls ?w0 = calls w" "asset_meta ?w0 = asset_meta w"
    by (simp_all add: logger_def)
  from ingestAsset_first_call [of ev "file" None ?w0] run w0
  have first: "\<exists>rest. calls w' =
             calls w @ PutObject (''assets/unclassified/'' @ randomUUID ev
                                   @ extname (file_name file))
               (file_content file) (file_size file) (file_type file) # rest"
    by (simp add: storedPath_try_def)
  from ingestAsset_None_meta [of ev "file" ?w0] run w0
  have meta: "asset_meta w' = asset_meta w" by simp
  have status: "resp_status (fst (ingestRoute ev body w)) \<in> {200, 500}"
    and data: "\<forall>a. resp_data (fst (ingestRoute ev body w)) = Some a \<longrightarrow>
             stored_fullpath a = ''assets/unclassified/'' @ randomUUID ev
                                   @ extname (file_name file)
             \<and> meta_base a = None"
    and world: "calls (snd (ingestRoute ev body w)) = calls w'"
      "asset_meta (snd (ingestRoute ev body w)) = asset_meta w'"
  proof (atomize (full), cases r)
    case (Inl x)
    with ingestAsset_Inl_D [of ev "file" None ?w0 x] run
    have x: "x = ServerError ''Failed to ingest asset'' 500" by simp
    have route: "ingestRoute ev body w =
        (\<lparr>resp_status = 500, resp_success = False, resp_data = None,
          resp_error = Some ''Failed to ingest asset''\<rparr>,
         logger Error ''Failed to ingest asset:'' (Caught x) w')"
      using run Inl x by (simp add: ingestRoute_partial [OF assms(1) partial])
    show "resp_status (fst (ingestRoute ev body w)) \<in> {200, 500} \<and>
      (\<forall>a. resp_data (fst (ingestRoute ev body w)) = Some a \<longrightarrow>
             stored_fullpath a = ''assets/unclassified/'' @ randomUUID ev
                                   @ extname (file_name file)
             \<and> meta_base a = None) \<and>
      calls (snd (ingestRoute ev body w)) = calls w' \<and>
      asset_meta (snd (ingestRoute ev body w)) = asset_meta w'"
      by (simp add: route logger_def)
  next
    case (Inr a)
    have route: "ingestRoute ev body w =
        (\<lparr>resp_status = 200, resp_success = True, resp_data = Some a,
          resp_error = None\<rparr>, w')"
      using run Inr by (simp add: ingestRoute_partial [OF assms(1) partial])
    from run Inr have ok: "fst (ingestAsset ev file None ?w0) = Inr a" by simp
    from ingestAsset_Inr_asset(4,5) [OF ok]
    have a: "stored_fullpath a = ''assets/unclassified/'' @ randomUUID ev
                                   @ extname (file_name file)" "meta_base a = None"
      by (simp_all add: storedPath_try_def)
    show "resp_status (fst (ingestRoute ev body w)) \<in> {200, 500} \<and>
      (\<forall>a. resp_data (fst (ingestRoute ev body w)) = Some a \<longrightarrow>
             stored_fullpath a = ''assets/unclassified/'' @ randomUUID ev
                                   @ extname (file_name file)
             \<and> meta_base a = None) \<and>
      calls (snd (ingestRoute ev body w)) = calls w' \<and>
      asset_meta (snd (ingestRoute ev body w)) = asset_meta w'"
      by (simp add: route a)
  qed
  from first world(1) have trace: "\<exists>rest. calls (snd (ingestRoute ev body w)) =
             calls w @ PutObject (''assets/unclassified/'' @ randomUUID ev
                                   @ extname (file_name file))
               (file_content file) (file_size file) (file_type file) # rest"
    by simp
  from meta world(2) have table: "asset_meta (snd (ingestRoute ev body w)) = asset_meta w"
    by simp
  from same trace table data status show ?thesis by blast
qed

theorem partial_metadata_is_discarded_witness:
  "body_file partial_body = Some photo_jpg
   \<and> body_asset_location_name partial_body \<in> {None, Some []}
   \<and> body_asset_camera partial_body \<in> {None, Some []}
   \<and> fst (ingestRoute quiet_env partial_body empty_world) =
       \<lparr>resp_status = 200, resp_success = True,
        resp_data = Some
          \<lparr>uuid = ''0f8fad5b'', imported_fullpath = ''photo.jpg'',
           imported_filename = ''photo.jpg'',
           stored_fullpath = ''assets/unclassified/0f8fad5b.jpg'',
           stored_url = ''http://minio/signed'', asset_size = 1024,
           stored_filename = ''0f8fad5b.jpg'', extension = ''jpg'', hash = Some ''d41d'',
           uploaded_at = 0, meta_base = None\<rparr>,
        resp_error = None\<rparr>
   \<and> asset_meta (snd (ingestRoute quiet_env partial_body empty_world)) = Map.empty"
proof -
  let ?w0 = "logger Info ''Ingesting asset without metadata''
                (Fields [(''filename'', Str (file_name photo_jpg)),
                         (''size'', Num (file_size photo_jpg)),
                         (''type'', Str (file_type photo_jpg))]) empty_world"
  have h1: "body_file partial_body = Some photo_jpg" by (simp add: partial_body_def)
  have h2: "body_asset_type partial_body \<in> {None, Some []}
       \<or> body_asset_class partial_body \<in> {None, Some []}
       \<or> body_asset_location_name partial_body \<in> {None, Some []}
       \<or> body_asset_camera partial_body \<in> {None, Some []}
       \<or> body_asset_date_label partial_body \<in> {None, Some []}"
    by (simp add: partial_body_def)
  have partial: "\<not> hasAllMetadataFields partial_body"
    by (simp add: hasAllMetadataFields_def truthy_def partial_body_def)
  have c: "create_failure quiet_env (assets ?w0) (randomUUID quiet_env) = None"
    by (simp add: create_failure_def quiet_env_fields empty_world_fields logger_def)
  have r: "fst (ingestAsset quiet_env photo_jpg None ?w0) =
     Inr \<lparr>uuid = ''0f8fad5b'', imported_fullpath = ''photo.jpg'',
           imported_filename = ''photo.jpg'',
           stored_fullpath = ''assets/unclassified/0f8fad5b.jpg'',
           stored_url = ''http://minio/signed'', asset_size = 1024,
           stored_filename = ''0f8fad5b.jpg'', extension = ''jpg'', hash = Some ''d41d'',
           uploaded_at = 0, meta_base = None\<rparr>"
    using ingestAsset_returns [OF quiet_env_fields(2) quiet_env_fields(3) c
        quiet_env_fields(8), of photo_jpg None]
    by (simp add: quiet_env_fields photo_jpg_fields extname_photo_jpg storedPath_try_def
        with_meta_def new_row_def basename_examples digest_hex_example)
  have response: "fst (ingestRoute quiet_env partial_body empty_world) =
       \<lparr>resp_status = 200, resp_success = True,
        resp_data = Some
          \<lparr>uuid = ''0f8fad5b'', imported_fullpath = ''photo.jpg'',
           imported_filename = ''photo.jpg'',
           stored_fullpath = ''assets/unclassified/0f8fad5b.jpg'',
           stored_url = ''http://minio/signed'', asset_size = 1024,
           stored_filename = ''0f8fad5b.jpg'', extension = ''jpg'', hash = Some ''d41d'',
           uploaded_at = 0, meta_base = None\<rparr>,
        resp_error = None\<rparr>"
    using r
    by (cases "ingestAsset quiet_env photo_jpg None ?w0")
       (simp add: ingestRoute_partial [OF h1 partial])
  from partial_metadata_is_discarded [OF h1 h2, of quiet_env empty_world]
  have "asset_meta (snd (ingestRoute quiet_env partial_body empty_world))
      = asset_meta empty_world"
    by blast
  then have "asset_meta (snd (ingestRoute quiet_env partial_body empty_world)) = Map.empty"
    by (simp add: empty_world_fields)
  with response h1 show ?thesis by (simp add: partial_body_def)
qed

section \<open>Metadata upsert\<close>














text \<open>
  C6, as amended. \<^verbatim>\<open>upsertMetadata\<close> on an identity that table \<^verbatim>\<open>assets\<close> does not hold issues
  the lookup and no other call, and leaves both tables as they were. When the lookup goes
  through, it fails with \<^verbatim>\<open>ServerError('Asset not found', 404)\<close>, and through the handler of
  the route the status of the response is 404; when the lookup itself throws, it fails
  with \<^verbatim>\<open>ServerError('Failed to upsert metadata', 500)\<close>.
\<close>

theorem upsert_unknown_asset_writes_nothing:
  assumes "assets w assetUuid = None"
  shows "assets (snd (upsertMetadata ev assetUuid md w)) = assets w
       \<and> asset_meta (snd (upsertMetadata ev assetUuid md w)) = asset_meta w
       \<and> calls (snd (upsertMetadata ev assetUuid md w)) = calls w @ [AssetFindUnique assetUuid]
       \<and> (findUnique_throws ev = None \<longrightarrow>
            fst (upsertMetadata ev assetUuid md w) = Inl (ServerError ''Asset not found'' 404))
       \<and> (findUnique_throws ev \<noteq> None \<longrightarrow>
            fst (upsertMetadata ev assetUuid md w)
              = Inl (ServerError ''Failed to upsert metadata'' 500))
       \<and> (findUnique_throws ev = None \<and> missingFields body = [] \<longrightarrow>
            resp_status (fst (upsertRoute ev assetUuid body w)) = 404
            \<and> resp_error (fst (upsertRoute ev assetUuid body w)) = Some ''Asset not found''
            \<and> assets (snd (upsertRoute ev assetUuid body w)) = assets w
            \<and> asset_meta (snd (upsertRoute ev assetUuid body w)) = asset_meta w)"
  using assms
  by (cases "findUnique_throws ev")
     (simp_all add: upsertRoute_def upsert_defs io_defs db_defs Let_def)

theorem upsert_unknown_asset_writes_nothing_witness:
  "assets empty_world ''no-such-asset'' = None
   \<and> findUnique_throws quiet_env = None
   \<and> missingFields lake_house = []
   \<and> fst (upsertMetadata quiet_env ''no-such-asset'' lake_house empty_world)
       = Inl (ServerError ''Asset not found'' 404)
   \<and> assets (snd (upsertMetadata quiet_env ''no-such-asset'' lake_house empty_world))
       = Map.empty
   \<and> asset_meta (snd (upsertMetadata quiet_env ''no-such-asset'' lake_house empty_world))
       = Map.empty
   \<and> calls (snd (upsertMetadata quiet_env ''no-such-asset'' lake_house empty_world))
       = [AssetFindUnique ''no-such-asset'']
   \<and> resp_status (fst (upsertRoute quiet_env ''no-such-asset'' lake_house empty_world)) = 404"
proof -
  have h: "assets empty_world ''no-such-asset'' = None" by (simp add: empty_world_fields)
  have m: "missingFields lake_house = []" by (simp add: missingFields_def lake_house_def)
  show ?thesis
    using upsert_unknown_asset_writes_nothing
      [OF h, where body = lake_house and ev = quiet_env and md = lake_house]
      h m quiet_env_fields(11)
    by (simp add: empty_world_fields)
qed

text \<open>C6 as stated fails where the lookup throws: the asset is not there, and the error is
  the generic one with status 500, not the one with status 404.\<close>

theorem lookup_failure_counterexample:
  "assets empty_world ''no-such-asset'' = None
   \<and> fst (upsertMetadata (quiet_env\<lparr>findUnique_throws := Some (JsError ''connection lost'')\<rparr>)
        ''no-such-asset'' lake_house empty_world)
       = Inl (ServerError ''Failed to upsert metadata'' 500)
   \<and> fst (upsertMetadata (quiet_env\<lparr>findUnique_throws := Some (JsError ''connection lost'')\<rparr>)
        ''no-such-asset'' lake_house empty_world)
       \<noteq> Inl (ServerError ''Asset not found'' 404)"
  by (simp add: upsert_defs io_defs db_defs Let_def quiet_env_def empty_world_def)

text \<open>What an upsert whose lookup and write go through leaves in the tables.\<close>

lemma upsertMetadata_tables:
  assumes "assets w assetUuid \<noteq> None"
    and "findUnique_throws ev = None" and "upsert_throws ev = None"
  shows "assets (snd (upsertMetadata ev assetUuid md w)) = assets w"
    and "asset_meta (snd (upsertMetadata ev assetUuid md w)) =
      (asset_meta w)(assetUuid \<mapsto>
        (case asset_meta w assetUuid of
           None \<Rightarrow> new_meta md (new_meta_id ev) assetUuid
         | Some r \<Rightarrow> r\<lparr>asset_type := asset_type md, asset_class := asset_class md,
                       asset_location_name := asset_location_name md,
                       asset_camera := asset_camera md,
                       asset_date_label := asset_date_label md\<rparr>))"
  using assms
  by (cases "asset_meta w assetUuid"; cases "findUnique_again_throws ev";
      auto simp add: upsert_defs io_defs db_defs Let_def)+

text \<open>The asset it returns when the lookup after the write goes through too.\<close>

lemma upsertMetadata_returns:
  assumes "assets w assetUuid \<noteq> None"
    and "findUnique_throws ev = None" and "upsert_throws ev = None"
    and "findUnique_again_throws ev = None"
  shows "fst (upsertMetadata ev assetUuid md w) =
      Inr (map_option (\<lambda>r. with_meta r
        (Some (case asset_meta w assetUuid of
           None \<Rightarrow> new_meta md (new_meta_id ev) assetUuid
         | Some r \<Rightarrow> r\<lparr>asset_type := asset_type md, asset_class := asset_class md,
                       asset_location_name := asset_location_name md,
                       asset_camera := asset_camera md,
                       asset_date_label := asset_date_label md\<rparr>))) (assets w assetUuid))"
  using assms
  by (cases "asset_meta w assetUuid";
      auto simp add: upsert_defs io_defs db_defs Let_def)

text \<open>An upsert whose lookup or write throws leaves the tables as they are.\<close>

lemma upsertMetadata_failed_tables:
  assumes "findUnique_throws ev \<noteq> None \<or> upsert_throws ev \<noteq> None"
  shows "assets (snd (upsertMetadata ev assetUuid md w)) = assets w"
    and "asset_meta (snd (upsertMetadata ev assetUuid md w)) = asset_meta w"
  using assms
  by (cases "findUnique_throws ev"; cases "upsert_throws ev"; cases "assets w assetUuid";
      simp add: upsert_defs io_defs db_defs Let_def)+

text \<open>
  C7. For an asset that exists, and a first upsert whose lookup and write go through, a
  second upsert with the same metadata leaves both tables as the first one left them,
  whatever the outside does during it; it returns the same asset when every lookup and
  the write go through in both; and the row stored for the asset carries the five values
  of the request.
\<close>

theorem upsert_twice_same_as_once:
  assumes "assets w assetUuid \<noteq> None"
    and "findUnique_throws ev1 = None" and "upsert_throws ev1 = None"
  shows "assets (snd (upsertMetadata ev2 assetUuid md (snd (upsertMetadata ev1 assetUuid md w))))
           = assets (snd (upsertMetadata ev1 assetUuid md w))
       \<and> asset_meta (snd (upsertMetadata ev2 assetUuid md (snd (upsertMetadata ev1 assetUuid md w))))
           = asset_meta (snd (upsertMetadata ev1 assetUuid md w))
       \<and> (findUnique_again_throws ev1 = None \<and> findUnique_throws ev2 = None
            \<and> upsert_throws ev2 = None \<and> findUnique_again_throws ev2 = None \<longrightarrow>
            fst (upsertMetadata ev2 assetUuid md (snd (upsertMetadata ev1 assetUuid md w)))
              = fst (upsertMetadata ev1 assetUuid md w))
       \<and> (\<exists>r. asset_meta (snd (upsertMetadata ev1 assetUuid md w)) assetUuid = Some r
              \<and> asset_type r = asset_type md \<and> asset_class r = asset_class md
              \<and> asset_location_name r = asset_location_name md
              \<and> asset_camera r = asset_camera md
              \<and> asset_date_label r = asset_date_label md)"
proof -
  let ?w1 = "snd (upsertMetadata ev1 assetUuid md w)"
  note once = upsertMetadata_tables [OF assms, of md]
  from once(1) assms(1) have exists1: "assets ?w1 assetUuid \<noteq> None" by simp
  have stored: "\<exists>r. asset_meta ?w1 assetUuid = Some r
              \<and> asset_type r = asset_type md \<and> asset_class r = asset_class md
              \<and> asset_location_name r = asset_location_name md
              \<and> asset_camera r = asset_camera md
              \<and> asset_date_label r = asset_date_label md"
    by (cases "asset_meta w assetUuid") (simp_all add: once(2) new_meta_def)
  have tables: "assets (snd (upsertMetadata ev2 assetUuid md ?w1)) = assets ?w1
      \<and> asset_meta (snd (upsertMetadata ev2 assetUuid md ?w1)) = asset_meta ?w1"
  proof (cases "findUnique_throws ev2 = None \<and> upsert_throws ev2 = None")
    case True
    then have l: "findUnique_throws ev2 = None" and u: "upsert_throws ev2 = None" by simp_all
    from upsertMetadata_tables [OF exists1 l u, of md] show ?thesis
      by (cases "asset_meta w assetUuid") (simp_all add: once(2) new_meta_def)
  next
    case False
    then have "findUnique_throws ev2 \<noteq> None \<or> upsert_throws ev2 \<noteq> None" by simp
    from upsertMetadata_failed_tables [OF this] show ?thesis by simp
  qed
  have result: "fst (upsertMetadata ev2 assetUuid md ?w1) = fst (upsertMetadata ev1 assetUuid md w)"
    if "findUnique_again_throws ev1 = None \<and> findUnique_throws ev2 = None
            \<and> upsert_throws ev2 = None \<and> findUnique_again_throws ev2 = None"
  proof -
    from that have a1: "findUnique_again_throws ev1 = None" and l: "findUnique_throws ev2 = None"
      and u: "upsert_throws ev2 = None" and a2: "findUnique_again_throws ev2 = None"
      by simp_all
    from upsertMetadata_returns [OF exists1 l u a2, of md]
      upsertMetadata_returns [OF assms a1, of md]
    show ?thesis
      by (cases "asset_meta w assetUuid") (simp_all add: once new_meta_def)
  qed
  from tables result stored show ?thesis by blast
qed

theorem upsert_twice_same_as_once_witness:
  "assets one_asset_world ''0f8fad5b'' = Some stored_photo
   \<and> findUnique_throws quiet_env = None
   \<and> upsert_throws quiet_env = None
   \<and> findUnique_again_throws quiet_env = None
   \<and> assets (snd (upsertMetadata quiet_env ''0f8fad5b'' lake_house
        (snd (upsertMetadata quiet_env ''0f8fad5b'' lake_house one_asset_world))))
       = assets (snd (upsertMetadata quiet_env ''0f8fad5b'' lake_house one_asset_world))
   \<and> asset_meta (snd (upsertMetadata quiet_env ''0f8fad5b'' lake_house
        (snd (upsertMetadata quiet_env ''0f8fad5b'' lake_house one_asset_world))))
       = asset_meta (snd (upsertMetadata quiet_env ''0f8fad5b'' lake_house one_asset_world))
   \<and> fst (upsertMetadata quiet_env ''0f8fad5b'' lake_house
        (snd (upsertMetadata quiet_env ''0f8fad5b'' lake_house one_asset_world)))
       = fst (upsertMetadata quiet_env ''0f8fad5b'' lake_house one_asset_world)
   \<and> asset_meta (snd (upsertMetadata quiet_env ''0f8fad5b'' lake_house one_asset_world))
        ''0f8fad5b''
       = Some \<lparr>asset_type = ''img'', asset_class = ''family'',
               asset_location_name = ''Lake House'', asset_camera = ''Canon R5'',
               asset_date_label = ''2024-07-01'', meta_id = ''meta-1'',
               asset_id = ''0f8fad5b''\<rparr>"
proof -
  have a: "assets one_asset_world ''0f8fad5b'' = Some stored_photo"
    by (simp add: one_asset_world_def)
  then have h1: "assets one_asset_world ''0f8fad5b'' \<noteq> None" by simp
  have m: "asset_meta one_asset_world ''0f8fad5b'' = None"
    by (simp add: one_asset_world_def empty_world_def)
  have stored: "asset_meta (snd (upsertMetadata quiet_env ''0f8fad5b'' lake_house one_asset_world))
        ''0f8fad5b''
       = Some \<lparr>asset_type = ''img'', asset_class = ''family'',
               asset_location_name = ''Lake House'', asset_camera = ''Canon R5'',
               asset_date_label = ''2024-07-01'', meta_id = ''meta-1'',
               asset_id = ''0f8fad5b''\<rparr>"
    by (simp add: upsertMetadata_tables(2) [OF h1 quiet_env_fields(11) quiet_env_fields(7)] m
        new_meta_def lake_house_fields quiet_env_fields)
  from upsert_twice_same_as_once
    [OF h1 quiet_env_fields(11) quiet_env_fields(7), of quiet_env lake_house]
    a stored quiet_env_fields(7) quiet_env_fields(11) quiet_env_fields(12)
  show ?thesis by simp
qed

end
